theory Spec2Isabelle
  imports Main "HOL-Library.Word" "HOL-Library.Sublist"
begin

unbundle bit_operations_syntax

section \<open>The winksock client core of node-hydna (index.js)\<close>

text \<open>
  The client multiplexes channels over one socket.  The development follows index.js:
  the frame codec (the three \<open>toBuffer\<close> methods and \<open>parserImplementation\<close>),
  \<open>getBinMode\<close>, and the objects \<open>Channel\<close>, \<open>Connection\<close> and
  \<open>OpenRequest\<close>, which live in an explicit store because they point at each other
  and are mutated in place.  A JavaScript call is a function from the store to an
  outcome (a thrown value, or the returned value) and the store it leaves.
\<close>

subsection \<open>JavaScript values and numbers\<close>

type_synonym byte = "8 word"
type_synonym bytes = "byte list"

text \<open>The values an argument of the public interface can be.\<close>

datatype jsval =
    JUndefined
  | JNull
  | JBool bool
  | JNum int
  | JNaN
  | JStr string
  | JBuffer bytes
  | JObject

text \<open>ToBoolean.\<close>

fun truthy :: "jsval \<Rightarrow> bool" where
  "truthy JUndefined = False"
| "truthy JNull = False"
| "truthy (JBool b) = b"
| "truthy (JNum n) = (n \<noteq> 0)"
| "truthy JNaN = False"
| "truthy (JStr s) = (s \<noteq> [])"
| "truthy (JBuffer b) = True"
| "truthy JObject = True"

text \<open>
  Thrown values.  \<open>Diverges\<close> is not a JavaScript value: it is the outcome of a call
  whose loop over a cyclic \<open>next\<close> chain would not return.
\<close>

datatype jserror =
    Error string
  | TypeError string
  | ReferenceError string
  | Diverges

text \<open>ToInt32 and ToUint32 of an integral Number: the low 32 bits.\<close>

definition to_int32 :: "int \<Rightarrow> 32 word" where
  "to_int32 n = word_of_int n"

text \<open>The remainder operator \<open>%\<close>: the result has the sign of the dividend.\<close>

definition js_rem :: "int \<Rightarrow> int \<Rightarrow> int" where
  "js_rem a b = sgn a * (\<bar>a\<bar> mod \<bar>b\<bar>)"

text \<open>Storing a Number into a Buffer element keeps its low 8 bits.\<close>

definition store_byte :: "int \<Rightarrow> byte" where
  "store_byte n = word_of_int n"

text \<open>
  Reading a Buffer element as an operand of a bitwise operator: an index out of range
  reads \<open>undefined\<close>, which ToInt32 turns into 0.
\<close>

definition rd :: "bytes \<Rightarrow> nat \<Rightarrow> 32 word" where
  "rd buf i = (if i < length buf then ucast (buf ! i) else 0)"

text \<open>\<open>id\<close> of a frame may be \<open>null\<close>, which is 0 in arithmetic.\<close>

definition num_of :: "int option \<Rightarrow> int" where
  "num_of v = (case v of None \<Rightarrow> 0 | Some n \<Rightarrow> n)"

subsection \<open>Constants\<close>

definition READ :: int where "READ = 1"
definition WRITE :: int where "WRITE = 2"
definition EMIT :: int where "EMIT = 4"
definition MAX_PAYLOAD_SIZE :: nat where "MAX_PAYLOAD_SIZE = 10240"
definition ALL_CHANNELS :: int where "ALL_CHANNELS = 0"

definition FLAG_ALLOW :: int where "FLAG_ALLOW = 0"
definition FLAG_REDIRECT :: int where "FLAG_REDIRECT = 1"
definition FLAG_DENY :: int where "FLAG_DENY = 7"

definition FLAG_EMIT :: int where "FLAG_EMIT = 0"
definition FLAG_END :: int where "FLAG_END = 1"
definition FLAG_ERROR :: int where "FLAG_ERROR = 7"

subsection \<open>Frames and their encoding\<close>

text \<open>
  \<open>DataFrame\<close> and \<open>SignalFrame\<close> are plain objects with the fields \<open>id\<close>,
  \<open>flag\<close> and \<open>data\<close>; \<open>data\<close> is a Buffer or absent.
\<close>

datatype frame_kind = DataFrame | SignalFrame

record frame =
  f_kind :: frame_kind
  f_id :: "int option"
  f_flag :: int
  f_data :: "bytes option"

text \<open>
  The body shared by the three \<open>toBuffer\<close> methods, which differ in the op code only:
  \<open>length = 7 + (data ? data.length : 0)\<close>, the seven header bytes, then
  \<open>data.copy(buffer, 7)\<close> when \<open>length > 7\<close>.
\<close>

definition header_bytes :: "int \<Rightarrow> int \<Rightarrow> int \<Rightarrow> int \<Rightarrow> bytes" where
  "header_bytes opc len ident flag =
     [ store_byte (uint (drop_bit 8 (to_int32 len))),
       store_byte (js_rem len 256),
       store_byte (uint (drop_bit 24 (to_int32 ident))),
       store_byte (uint (drop_bit 16 (to_int32 ident))),
       store_byte (uint (drop_bit 8 (to_int32 ident))),
       store_byte (js_rem ident 256),
       store_byte (sint (push_bit 3 (to_int32 opc) OR to_int32 flag)) ]"

definition packet_bytes :: "int \<Rightarrow> int option \<Rightarrow> int \<Rightarrow> bytes option \<Rightarrow> bytes" where
  "packet_bytes opc ident flag data =
     (let len = 7 + (case data of None \<Rightarrow> 0 | Some d \<Rightarrow> length d)
      in header_bytes opc (int len) (num_of ident) flag
         @ (if len > 7 then (case data of None \<Rightarrow> [] | Some d \<Rightarrow> d) else []))"

definition DataFrame_toBuffer :: "frame \<Rightarrow> bytes" where
  "DataFrame_toBuffer f = packet_bytes 2 (f_id f) (f_flag f) (f_data f)"

definition SignalFrame_toBuffer :: "frame \<Rightarrow> bytes" where
  "SignalFrame_toBuffer f = packet_bytes 3 (f_id f) (f_flag f) (f_data f)"

definition frame_toBuffer :: "frame \<Rightarrow> bytes" where
  "frame_toBuffer f =
     (case f_kind f of DataFrame \<Rightarrow> DataFrame_toBuffer f | SignalFrame \<Rightarrow> SignalFrame_toBuffer f)"

subsection \<open>Decoding a frame header\<close>

text \<open>The expressions of the parser's loop body.\<close>

definition read_packetlen :: "bytes \<Rightarrow> nat \<Rightarrow> nat" where
  "read_packetlen buffer offset =
     nat (sint (push_bit 8 (rd buffer offset) OR rd buffer (offset + 1)))"

definition read_u32 :: "bytes \<Rightarrow> nat \<Rightarrow> int" where
  "read_u32 buffer start =
     sint (push_bit 16 (rd buffer (start + 1)) OR push_bit 8 (rd buffer (start + 2))
           OR rd buffer (start + 3))
     + uint (push_bit 24 (rd buffer start))"

definition desc_op :: "32 word \<Rightarrow> int" where
  "desc_op desc = sint (signed_drop_bit 2 (signed_drop_bit 1 desc AND 15))"

definition desc_flag :: "32 word \<Rightarrow> int" where
  "desc_flag desc = sint (signed_drop_bit 1 (push_bit 1 desc AND 15))"

subsection \<open>Mode expressions\<close>

text \<open>
  \<open>MODE_RE = /^(r|read){0,1}(w|write){0,1}(?:\+){0,1}(e|emit){0,1}$/i\<close>.
  With the flag \<open>i\<close> a character of the input and a character of the pattern match
  when their canonical (upper case) forms are equal.  A group with \<open>{0,1}\<close> tries its
  alternatives in order and then the empty match; the matcher below lists the ways to
  match in the order backtracking visits them and the first complete one is the result.
  The result says which of the three capturing groups took part.
\<close>

definition canon :: "char \<Rightarrow> char" where
  "canon c =
     (case map_of (zip ''abcdefghijklmnopqrstuvwxyz'' ''ABCDEFGHIJKLMNOPQRSTUVWXYZ'') c of
        None \<Rightarrow> c
      | Some u \<Rightarrow> u)"

definition opt_group :: "string list \<Rightarrow> string \<Rightarrow> (bool \<times> string) list" where
  "opt_group alts s =
     concat (map (\<lambda>a. if prefix (map canon a) s then [(True, drop (length a) s)] else []) alts)
     @ [(False, s)]"

definition MODE_RE_parses :: "string \<Rightarrow> (bool \<times> bool \<times> bool) list" where
  "MODE_RE_parses s =
     concat (map (\<lambda>(g1, s1).
       concat (map (\<lambda>(g2, s2).
         concat (map (\<lambda>(p, s3).
           concat (map (\<lambda>(g3, s4). if s4 = [] then [(g1, g2, g3)] else [])
                       (opt_group [''e'', ''emit''] s3)))
           (opt_group [''+''] s2)))
         (opt_group [''w'', ''write''] s1)))
       (opt_group [''r'', ''read''] (map canon s)))"

definition MODE_RE_match :: "string \<Rightarrow> (bool \<times> bool \<times> bool) option" where
  "MODE_RE_match s = (case MODE_RE_parses s of [] \<Rightarrow> None | m # ms \<Rightarrow> Some m)"

text \<open>\<open>getBinMode\<close>: \<open>None\<close> is the \<open>null\<close> it returns on an invalid mode.\<close>

definition getBinMode :: "jsval \<Rightarrow> int option" where
  "getBinMode modeExpr =
     (if \<not> truthy modeExpr then Some 0
      else case modeExpr of
        JStr s \<Rightarrow>
          (case MODE_RE_match s of
             None \<Rightarrow> None
           | Some (m1, m2, m3) \<Rightarrow>
               (let result = 0;
                    result = (if m1 then result OR READ else result);
                    result = (if m2 then result OR WRITE else result);
                    result = (if m3 then result OR EMIT else result)
                in Some result))
      | _ \<Rightarrow> None)"

text \<open>
  Following the spec's words: the strings of the grammar
  \<open>(r|read)?(w|write)?\+?(e|emit)?\<close>, sorted by which of \<open>r|read\<close>,
  \<open>w|write\<close> and \<open>e|emit\<close> they contain, and matching without regard to case.
\<close>

definition mode_words :: "bool \<Rightarrow> bool \<Rightarrow> bool \<Rightarrow> string set" where
  "mode_words r w e =
     {a @ b @ p @ c | a b p c.
        a \<in> (if r then {''r'', ''read''} else {[]}) \<and>
        b \<in> (if w then {''w'', ''write''} else {[]}) \<and>
        p \<in> {[], ''+''} \<and>
        c \<in> (if e then {''e'', ''emit''} else {[]})}"

definition spec_mode_matches :: "bool \<Rightarrow> bool \<Rightarrow> bool \<Rightarrow> string \<Rightarrow> bool" where
  "spec_mode_matches r w e s = (\<exists>t \<in> mode_words r w e. map canon s = map canon t)"

subsection \<open>The platform\<close>

text \<open>
  What index.js takes from Node and the JavaScript library is a parameter of the model:
  the URL parser, \<open>parseInt\<close> (\<open>None\<close> is NaN), \<open>decodeURIComponent\<close>,
  the Buffer constructor from a string and an encoding, \<open>toString\<close> of a Buffer,
  \<open>toString\<close> and \<open>JSON.stringify\<close> of a value, \<open>JSON.parse\<close>, and ToNumber
  of a string.
\<close>

record url =
  u_protocol :: "string option"
  u_host :: string
  u_pathname :: "string option"
  u_query :: "string option"
  u_href :: string

record platform =
  url_parse :: "string \<Rightarrow> url"
  parseInt :: "string \<Rightarrow> int option"
  decodeURIComponent :: "string \<Rightarrow> jserror + string"
  new_Buffer :: "string \<Rightarrow> string option \<Rightarrow> bytes"
  Buffer_toString :: "bytes \<Rightarrow> string option \<Rightarrow> string"
  value_toString :: "jsval \<Rightarrow> string"
  JSON_stringify :: "jsval \<Rightarrow> string"
  JSON_parse :: "string \<Rightarrow> jserror + jsval"
  string_toNumber :: "string \<Rightarrow> int option"

text \<open>\<open>VALID_ENCODINGS_RE = /^(ascii|utf8|base64|json)/i\<close>, used with \<open>test\<close>.\<close>

definition VALID_ENCODINGS_RE_test :: "string \<Rightarrow> bool" where
  "VALID_ENCODINGS_RE_test s =
     (\<exists>a \<in> set [''ascii'', ''utf8'', ''base64'', ''json'']. prefix (map canon a) (map canon s))"

subsection \<open>The store\<close>

text \<open>
  Objects are numbered; a reference is the number.  \<open>ch_events\<close> holds the names of
  the events that have a listener (\<open>this._events[name]\<close>).  \<open>rq_chan\<close> is the channel
  that the closures \<open>onresponse\<close> and \<open>onclose\<close> of a request capture; it is absent
  until \<open>Connection.open\<close> installs them.  The three variables of
  \<open>parserImplementation\<close> are kept with the connection they belong to.
  \<open>_opening\<close> of a channel is written by the constructor only and is left out, and
  so is \<open>_writequeue\<close>, which \<open>finalizeDestroyChannel\<close> sets and nothing reads.
\<close>

record channel =
  ch_id :: "int option"
  ch_connecting :: bool
  ch_closing :: bool
  ch_destroyed :: bool
  ch_connection :: "nat option"
  ch_request :: "nat option"
  ch_mode :: "int option"
  ch_writeQueue :: "frame list option"
  ch_encoding :: "string option"
  ch_url :: "string option"
  ch_endsig :: "frame option"
  ch_readable :: bool
  ch_writable :: bool
  ch_emitable :: bool
  ch_events :: "string list"

record request =
  rq_conn :: nat
  rq_id :: int
  rq_flag :: int
  rq_data :: "bytes option"
  rq_present :: bool
  rq_sent :: bool
  rq_destroyed :: bool
  rq_prev :: "nat option"
  rq_next :: "nat option"
  rq_chan :: "nat option"

text \<open>
  A socket: what was written to it, what \<open>write\<close> answers (whether the kernel took
  the bytes), whether \<open>write\<close> throws, its idle timeout and the number of
  \<open>timeout\<close> listeners.
\<close>

record socket =
  sk_written :: "bytes list"
  sk_flushed :: bool
  sk_failing :: "jserror option"
  sk_timeout :: nat
  sk_ontimeout :: nat
  sk_destroyed :: bool

record connection =
  cn_id :: "string option"
  cn_chanRefCount :: int
  cn_reqRefCount :: int
  cn_channels :: "(int \<times> nat) list"
  cn_requests :: "(int \<times> nat) list"
  cn_sock :: "nat option"
  cn_buffer :: "bytes option"
  cn_offset :: nat
  cn_length :: nat

datatype event =
    EvConnect
  | EvDrain
  | EvError jserror
  | EvClose bool "string option"
  | EvData jsval int
  | EvSignal "string option"

text \<open>The two closures handed to \<open>process.nextTick\<close>.\<close>

datatype task = SendRequest nat | AlreadyOpen nat

record world =
  w_chans :: "nat \<Rightarrow> channel"
  w_reqs :: "nat \<Rightarrow> request"
  w_conns :: "nat \<Rightarrow> connection"
  w_socks :: "nat \<Rightarrow> socket"
  w_nchans :: nat
  w_nreqs :: nat
  w_nconns :: nat
  w_all :: "string \<Rightarrow> nat option"
  w_disposed :: "string \<Rightarrow> nat option"
  w_ticks :: "task list"
  w_handshakes :: "(nat \<times> url) list"
  w_log :: "(nat \<times> event) list"

type_synonym 'a act = "world \<Rightarrow> (jserror + 'a) \<times> world"

definition ret :: "'a \<Rightarrow> 'a act" where
  "ret x = (\<lambda>w. (Inr x, w))"

definition throw :: "jserror \<Rightarrow> 'a act" where
  "throw e = (\<lambda>w. (Inl e, w))"

definition seq :: "'a act \<Rightarrow> ('a \<Rightarrow> 'b act) \<Rightarrow> 'b act" where
  "seq m f = (\<lambda>w. case m w of (Inl e, w') \<Rightarrow> (Inl e, w') | (Inr x, w') \<Rightarrow> f x w')"

definition then_do :: "unit act \<Rightarrow> 'a act \<Rightarrow> 'a act" where
  "then_do m n = seq m (\<lambda>u. n)"

text \<open>\<open>try { m } catch (e) { h e }\<close>; a call that does not return is not caught.\<close>

definition try_catch :: "'a act \<Rightarrow> (jserror \<Rightarrow> 'a act) \<Rightarrow> 'a act" where
  "try_catch m h =
     (\<lambda>w. case m w of
            (Inl e, w') \<Rightarrow> if e = Diverges then (Inl e, w') else h e w'
          | (Inr x, w') \<Rightarrow> (Inr x, w'))"

definition modify :: "(world \<Rightarrow> world) \<Rightarrow> unit act" where
  "modify f = (\<lambda>w. (Inr (), f w))"

definition when_do :: "bool \<Rightarrow> unit act \<Rightarrow> unit act" where
  "when_do b m = (if b then m else ret ())"

primrec block :: "unit act list \<Rightarrow> unit act" where
  "block [] = ret ()"
| "block (m # ms) = then_do m (block ms)"

definition block_then :: "unit act list \<Rightarrow> 'a \<Rightarrow> 'a act" where
  "block_then ms x = then_do (block ms) (ret x)"

primrec for_each :: "'a list \<Rightarrow> ('a \<Rightarrow> unit act) \<Rightarrow> unit act" where
  "for_each [] f = ret ()"
| "for_each (x # xs) f = then_do (f x) (for_each xs f)"

definition upd_chan :: "nat \<Rightarrow> (channel \<Rightarrow> channel) \<Rightarrow> unit act" where
  "upd_chan c f = modify (\<lambda>w. w\<lparr>w_chans := (w_chans w)(c := f (w_chans w c))\<rparr>)"

definition upd_req :: "nat \<Rightarrow> (request \<Rightarrow> request) \<Rightarrow> unit act" where
  "upd_req r f = modify (\<lambda>w. w\<lparr>w_reqs := (w_reqs w)(r := f (w_reqs w r))\<rparr>)"

definition upd_conn :: "nat \<Rightarrow> (connection \<Rightarrow> connection) \<Rightarrow> unit act" where
  "upd_conn c f = modify (\<lambda>w. w\<lparr>w_conns := (w_conns w)(c := f (w_conns w c))\<rparr>)"

definition upd_sock :: "nat \<Rightarrow> (socket \<Rightarrow> socket) \<Rightarrow> unit act" where
  "upd_sock s f = modify (\<lambda>w. w\<lparr>w_socks := (w_socks w)(s := f (w_socks w s))\<rparr>)"

text \<open>
  \<open>emit\<close> is Node's.  An \<open>error\<close> event on an emitter that has no listener for
  \<open>error\<close> throws the error it was given; any other call records the event.  What the
  listeners of the application do is outside index.js.
\<close>

fun error_of :: "event \<Rightarrow> jserror option" where
  "error_of (EvError e) = Some e"
| "error_of EvConnect = None"
| "error_of EvDrain = None"
| "error_of (EvClose b m) = None"
| "error_of (EvData v p) = None"
| "error_of (EvSignal m) = None"

definition emit :: "nat \<Rightarrow> event \<Rightarrow> unit act" where
  "emit chan ev = (\<lambda>w.
     case error_of ev of
       Some e \<Rightarrow>
         if ''error'' \<in> set (ch_events (w_chans w chan))
         then (Inr (), w\<lparr>w_log := w_log w @ [(chan, ev)]\<rparr>)
         else (Inl e, w)
     | None \<Rightarrow> (Inr (), w\<lparr>w_log := w_log w @ [(chan, ev)]\<rparr>))"

definition nextTick :: "task \<Rightarrow> unit act" where
  "nextTick t = modify (\<lambda>w. w\<lparr>w_ticks := w_ticks w @ [t]\<rparr>)"

text \<open>
  Objects used as dictionaries keyed by channel id.  ES5 leaves the order of
  \<open>for (k in o)\<close> open; the model visits the keys in the order they were added.
\<close>

definition obj_get :: "(int \<times> nat) list \<Rightarrow> int \<Rightarrow> nat option" where
  "obj_get m k = map_of m k"

fun obj_set :: "(int \<times> nat) list \<Rightarrow> int \<Rightarrow> nat \<Rightarrow> (int \<times> nat) list" where
  "obj_set [] k v = [(k, v)]"
| "obj_set (p # ps) k v = (if fst p = k then (k, v) # ps else p # obj_set ps k v)"

definition obj_delete :: "(int \<times> nat) list \<Rightarrow> int \<Rightarrow> (int \<times> nat) list" where
  "obj_delete m k = filter (\<lambda>p. fst p \<noteq> k) m"

definition obj_keys :: "(int \<times> nat) list \<Rightarrow> int list" where
  "obj_keys m = remdups (map fst m)"

text \<open>\<open>!this.id\<close> of a channel (\<open>null\<close> and 0 are falsy), and of a connection.\<close>

definition id_falsy :: "int option \<Rightarrow> bool" where
  "id_falsy i = (i = None \<or> i = Some 0)"

definition conn_live :: "connection \<Rightarrow> bool" where
  "conn_live c = (case cn_id c of None \<Rightarrow> False | Some s \<Rightarrow> s \<noteq> [])"

subsection \<open>Identifiers that are not bound\<close>

text \<open>
  Reading an identifier that no enclosing scope declares throws a ReferenceError; the
  code after it is kept in the model as the continuation of the failed lookup.
\<close>

definition unbound :: "string \<Rightarrow> 'a act" where
  "unbound name = throw (ReferenceError (name @ '' is not defined''))"

subsection \<open>Connection: disposal and writing\<close>

definition Connection_setDisposed :: "nat \<Rightarrow> bool \<Rightarrow> unit act" where
  "Connection_setDisposed cn state = (\<lambda>w.
     let c = w_conns w cn in
     case cn_sock c of
       None \<Rightarrow> (Inr (), w)
     | Some sock \<Rightarrow>
         (case cn_id c of
            None \<Rightarrow> (Inr (), w)
          | Some ident \<Rightarrow>
              if ident = [] then (Inr (), w)
              else if state then
                block
                  [ upd_sock sock (\<lambda>s. s\<lparr>sk_timeout := 200, sk_ontimeout := Suc (sk_ontimeout s)\<rparr>),
                    modify (\<lambda>w. w\<lparr>w_disposed := (w_disposed w)(ident \<mapsto> cn),
                                   w_all := (w_all w)(ident := None)\<rparr>) ] w
              else
                block
                  [ modify (\<lambda>w. w\<lparr>w_disposed := (w_disposed w)(ident := None),
                                   w_all := (w_all w)(ident \<mapsto> cn)\<rparr>),
                    upd_sock sock (\<lambda>s. s\<lparr>sk_timeout := 0, sk_ontimeout := 0\<rparr>) ] w))"

definition finalizeDestroyChannel :: "nat \<Rightarrow> jserror option \<Rightarrow> string option \<Rightarrow> unit act" where
  "finalizeDestroyChannel chan err message = (\<lambda>w.
     let ch = w_chans w chan; ident = ch_id ch in
     if ch_destroyed ch then (Inr (), w)
     else
       block
         [ (case ch_connection ch of
              None \<Rightarrow> ret ()
            | Some conn \<Rightarrow> (\<lambda>w.
                if \<not> id_falsy ident
                   \<and> obj_get (cn_channels (w_conns w conn)) (num_of ident) = Some chan
                then
                  block
                    [ upd_conn conn (\<lambda>c. c\<lparr>cn_channels := obj_delete (cn_channels c) (num_of ident),
                                          cn_chanRefCount := cn_chanRefCount c - 1\<rparr>),
                      (\<lambda>w. when_do (cn_chanRefCount (w_conns w conn) = 0
                                     \<and> cn_reqRefCount (w_conns w conn) = 0)
                                    (Connection_setDisposed conn True) w) ] w
                else (Inr (), w))),
           upd_chan chan (\<lambda>ch. ch\<lparr>ch_id := None, ch_readable := False, ch_writable := False,
                                  ch_emitable := False, ch_destroyed := True,
                                  ch_request := None, ch_connection := None\<rparr>),
           (case err of None \<Rightarrow> ret () | Some e \<Rightarrow> emit chan (EvError e)),
           emit chan (EvClose (err \<noteq> None) message) ] w)"

text \<open>What \<open>Connection.write\<close> is handed: a frame, or an OpenRequest.\<close>

datatype packet = PFrame frame | PRequest nat

definition OpenRequest_toBuffer :: "request \<Rightarrow> bytes" where
  "OpenRequest_toBuffer r = packet_bytes 1 (Some (rq_id r)) (rq_flag r) (rq_data r)"

definition packet_toBuffer :: "world \<Rightarrow> packet \<Rightarrow> bytes" where
  "packet_toBuffer w p =
     (case p of PFrame f \<Rightarrow> frame_toBuffer f | PRequest r \<Rightarrow> OpenRequest_toBuffer (w_reqs w r))"

definition sock_write :: "nat \<Rightarrow> bytes \<Rightarrow> bool act" where
  "sock_write sock b = (\<lambda>w.
     case sk_failing (w_socks w sock) of
       Some e \<Rightarrow> (Inl e, w)
     | None \<Rightarrow> then_do (upd_sock sock (\<lambda>s. s\<lparr>sk_written := sk_written s @ [b]\<rparr>))
                        (ret (sk_flushed (w_socks w sock))) w)"

definition sock_destroy :: "nat \<Rightarrow> unit act" where
  "sock_destroy sock = upd_sock sock (\<lambda>s. s\<lparr>sk_destroyed := True\<rparr>)"

definition Connection_write :: "nat \<Rightarrow> packet \<Rightarrow> bool act" where
  "Connection_write cn p = (\<lambda>w.
     case cn_sock (w_conns w cn) of
       Some sock \<Rightarrow> sock_write sock (packet_toBuffer w p) w
     | None \<Rightarrow> (Inr False, w))"

subsection \<open>OpenRequest\<close>

text \<open>
  The loop \<open>while (next.next && (next = next.next)) {}\<close> of the constructor, with the
  number of steps it may take; \<open>None\<close> when the chain is longer than that.
\<close>

fun chain_last :: "nat \<Rightarrow> (nat \<Rightarrow> request) \<Rightarrow> nat \<Rightarrow> nat option" where
  "chain_last 0 reqs r = None"
| "chain_last (Suc n) reqs r =
     (case rq_next (reqs r) of None \<Rightarrow> Some r | Some nx \<Rightarrow> chain_last n reqs nx)"

text \<open>
  \<open>new OpenRequest(conn, id, flag, data)\<close>.  A chain of distinct requests has at most
  as many members as there are requests, so a walk that is longer is on a cycle.
\<close>

definition OpenRequest_new :: "nat \<Rightarrow> int \<Rightarrow> int \<Rightarrow> bytes option \<Rightarrow> nat act" where
  "OpenRequest_new conn ident flag data = (\<lambda>w.
     let r = w_nreqs w;
         w1 = w\<lparr>w_nreqs := Suc r,
                w_reqs := (w_reqs w)(r := \<lparr>rq_conn = conn, rq_id = ident, rq_flag = flag,
                                           rq_data = data, rq_present = False, rq_sent = False,
                                           rq_destroyed = False, rq_prev = None, rq_next = None,
                                           rq_chan = None\<rparr>)\<rparr>
     in seq (case obj_get (cn_requests (w_conns w1 conn)) ident of
               Some head \<Rightarrow>
                 (case chain_last (Suc r) (w_reqs w1) head of
                    None \<Rightarrow> throw Diverges
                  | Some tail \<Rightarrow> upd_req tail (\<lambda>q. q\<lparr>rq_next := Some r\<rparr>))
             | None \<Rightarrow> upd_conn conn (\<lambda>c. c\<lparr>cn_requests := obj_set (cn_requests c) ident r\<rparr>))
            (\<lambda>u. then_do (upd_conn conn (\<lambda>c. c\<lparr>cn_reqRefCount := cn_reqRefCount c + 1\<rparr>))
                          (ret r)) w1)"

definition OpenRequest_send :: "nat \<Rightarrow> unit act" where
  "OpenRequest_send r = (\<lambda>w.
     if rq_present (w_reqs w r) then (Inr (), w)
     else
       then_do (upd_req r (\<lambda>q. q\<lparr>rq_present := True\<rparr>))
         (\<lambda>w. if rq_sent (w_reqs w r) then throw (Error ''OpenRequest is already sent'') w
               else nextTick (SendRequest r) w) w)"

definition OpenRequest_destroy :: "nat \<Rightarrow> jserror option \<Rightarrow> string option \<Rightarrow> unit act" where
  "OpenRequest_destroy r err message = (\<lambda>w.
     let rq = w_reqs w r; conn = rq_conn rq in
     if rq_destroyed rq then (Inr (), w)
     else
       block
         [ (\<lambda>w. if conn_live (w_conns w conn) then
                   block
                     [ upd_conn conn (\<lambda>c. c\<lparr>cn_reqRefCount := cn_reqRefCount c - 1\<rparr>),
                       (\<lambda>w. when_do (cn_reqRefCount (w_conns w conn) = 0
                                      \<and> cn_chanRefCount (w_conns w conn) = 0)
                                     (Connection_setDisposed conn True) w) ] w
                 else (Inr (), w)),
           (case rq_chan rq of
              None \<Rightarrow> ret ()
            | Some chan \<Rightarrow>
                (case err of None \<Rightarrow> ret () | Some e \<Rightarrow> finalizeDestroyChannel chan (Some e) None)),
           upd_req r (\<lambda>q. q\<lparr>rq_destroyed := True\<rparr>) ] w)"

definition OpenRequest_cancel :: "nat \<Rightarrow> bool act" where
  "OpenRequest_cancel r = (\<lambda>w.
     let rq = w_reqs w r; ident = rq_id rq; conn = rq_conn rq in
     if rq_sent rq then (Inr False, w)
     else
       then_do
         (block
            [ if obj_get (cn_requests (w_conns w conn)) ident = Some r then
                (case rq_next rq of
                   Some nx \<Rightarrow> upd_conn conn (\<lambda>c. c\<lparr>cn_requests := obj_set (cn_requests c) ident nx\<rparr>)
                 | None \<Rightarrow> upd_conn conn (\<lambda>c. c\<lparr>cn_requests := obj_delete (cn_requests c) ident\<rparr>))
              else if rq_prev rq \<noteq> None then upd_req r (\<lambda>q. q\<lparr>rq_prev := rq_next q\<rparr>)
              else ret (),
              OpenRequest_destroy r None None ])
         (ret True) w)"

text \<open>
  \<open>destroyAndNext\<close> calls itself on \<open>this.next\<close> first.  The depth of the recursion
  is bounded as in \<open>chain_last\<close>.
\<close>

fun destroyAndNext_depth :: "nat \<Rightarrow> nat \<Rightarrow> jserror option \<Rightarrow> unit act" where
  "destroyAndNext_depth 0 r err = throw Diverges"
| "destroyAndNext_depth (Suc n) r err = (\<lambda>w.
     then_do (case rq_next (w_reqs w r) of
                Some nx \<Rightarrow> destroyAndNext_depth n nx err
              | None \<Rightarrow> ret ())
             (OpenRequest_destroy r err None) w)"

definition OpenRequest_destroyAndNext :: "nat \<Rightarrow> jserror option \<Rightarrow> unit act" where
  "OpenRequest_destroyAndNext r err = (\<lambda>w. destroyAndNext_depth (Suc (w_nreqs w)) r err w)"

subsection \<open>Connection.destroy\<close>

definition Connection_destroy :: "nat \<Rightarrow> jserror option \<Rightarrow> string option \<Rightarrow> unit act" where
  "Connection_destroy cn err message = (\<lambda>w.
     let c = w_conns w cn in
     if \<not> conn_live c then (Inr (), w)
     else
       block
         [ upd_conn cn (\<lambda>c. c\<lparr>cn_id := None\<rparr>),
           for_each (obj_keys (cn_channels c)) (\<lambda>chanid w.
             case obj_get (cn_channels (w_conns w cn)) chanid of
               Some chan \<Rightarrow> finalizeDestroyChannel chan err message w
             | None \<Rightarrow> (Inr (), w)),
           for_each (obj_keys (cn_requests c)) (\<lambda>reqid w.
             case obj_get (cn_requests (w_conns w cn)) reqid of
               Some request \<Rightarrow> OpenRequest_destroyAndNext request err w
             | None \<Rightarrow> (Inr (), w)),
           upd_conn cn (\<lambda>c. c\<lparr>cn_channels := [], cn_requests := [],
                               cn_chanRefCount := 0, cn_reqRefCount := 0\<rparr>),
           (case cn_id c of
              None \<Rightarrow> ret ()
            | Some ident \<Rightarrow>
                modify (\<lambda>w. w\<lparr>w_all := (w_all w)(ident := None),
                               w_disposed := (w_disposed w)(ident := None)\<rparr>)),
           (\<lambda>w. case cn_sock (w_conns w cn) of
                   Some sock \<Rightarrow> block [sock_destroy sock, upd_conn cn (\<lambda>c. c\<lparr>cn_sock := None\<rparr>)] w
                 | None \<Rightarrow> (Inr (), w)) ] w)"

subsection \<open>Channel: writing out and destroying\<close>

text \<open>
  \<open>_writeOut\<close> and \<open>destroy\<close> call each other.  \<open>_writeOut\<close> is given the
  \<open>destroy\<close> it calls.  The \<open>destroy\<close> that \<open>destroy\<close> itself reaches through
  \<open>_writeOut\<close> runs with \<open>_closing\<close> set and so returns at its first test; one
  unfolding of the body is therefore all of \<open>destroy\<close>
  (lemma \<open>Channel_destroy_unfold\<close> below).
\<close>

definition Channel_writeOut_with ::
  "(nat \<Rightarrow> jserror option \<Rightarrow> unit act) \<Rightarrow> nat \<Rightarrow> frame \<Rightarrow> bool act" where
  "Channel_writeOut_with destroy chan packet = (\<lambda>w.
     let ch = w_chans w chan in
     case ch_writeQueue ch of
       Some q \<Rightarrow> then_do (upd_chan chan (\<lambda>ch. ch\<lparr>ch_writeQueue := Some (q @ [packet])\<rparr>))
                          (ret False) w
     | None \<Rightarrow>
         if ch_connecting ch then
           then_do (upd_chan chan (\<lambda>ch. ch\<lparr>ch_writeQueue := Some [packet]\<rparr>)) (ret False) w
         else
           (case ch_connection ch of
              Some cn \<Rightarrow> Connection_write cn (PFrame packet) w
            | None \<Rightarrow> then_do (destroy chan (Some (Error ''Channel is not writable'')))
                               (ret False) w))"

definition Channel_destroy_body ::
  "(nat \<Rightarrow> jserror option \<Rightarrow> unit act) \<Rightarrow> nat \<Rightarrow> jserror option \<Rightarrow> unit act" where
  "Channel_destroy_body destroy chan err = (\<lambda>w.
     let ch = w_chans w chan in
     if ch_destroyed ch \<or> ch_closing ch \<or> id_falsy (ch_id ch) then (Inr (), w)
     else
       block
         [ when_do (ch_connection ch = None) (finalizeDestroyChannel chan None None),
           upd_chan chan (\<lambda>ch. ch\<lparr>ch_readable := False, ch_writable := False,
                                  ch_emitable := False, ch_closing := True\<rparr>),
           (\<lambda>w. let ch = w_chans w chan in
              seq (case ch_request ch of
                     None \<Rightarrow> ret False
                   | Some r \<Rightarrow> if ch_endsig ch = None then OpenRequest_cancel r else ret False)
                  (\<lambda>cancelled.
                     if cancelled then
                       block [ upd_chan chan (\<lambda>ch. ch\<lparr>ch_request := None\<rparr>),
                               finalizeDestroyChannel chan err None ]
                     else (\<lambda>w.
                       let ch = w_chans w chan;
                           sig = (case ch_endsig ch of
                                    Some s \<Rightarrow> s
                                  | None \<Rightarrow> \<lparr>f_kind = SignalFrame, f_id = ch_id ch,
                                              f_flag = FLAG_END, f_data = None\<rparr>)
                       in if ch_request ch \<noteq> None then
                            upd_chan chan (\<lambda>ch. ch\<lparr>ch_endsig := Some sig\<rparr>) w
                          else
                            try_catch (seq (Channel_writeOut_with destroy chan sig) (\<lambda>b. ret ()))
                                      (\<lambda>e. ret ()) w)) w) ] w)"

definition Channel_destroy :: "nat \<Rightarrow> jserror option \<Rightarrow> unit act" where
  "Channel_destroy = Channel_destroy_body (Channel_destroy_body (\<lambda>chan err. throw Diverges))"

definition Channel_writeOut :: "nat \<Rightarrow> frame \<Rightarrow> bool act" where
  "Channel_writeOut = Channel_writeOut_with Channel_destroy"

subsection \<open>Channel._open\<close>

text \<open>
  The loop over the queued packets; \<open>None\<close> is the \<open>return\<close> after a failed write.
\<close>

fun drain_queue :: "nat \<Rightarrow> int \<Rightarrow> frame list \<Rightarrow> bool \<Rightarrow> bool option act" where
  "drain_queue chan newid [] flushed = ret (Some flushed)"
| "drain_queue chan newid (packet # rest) flushed =
     seq (try_catch (seq (Channel_writeOut chan (packet\<lparr>f_id := Some newid\<rparr>)) (\<lambda>b. ret (Some b)))
                    (\<lambda>writeException. then_do (Channel_destroy chan (Some writeException)) (ret None)))
         (\<lambda>r. case r of None \<Rightarrow> ret None | Some b \<Rightarrow> drain_queue chan newid rest b)"

text \<open>
  In the branch for a closing channel the source reads \<open>self\<close>, which \<open>_open\<close> does
  not declare and the module does not define.
\<close>

definition Channel_open :: "nat \<Rightarrow> int \<Rightarrow> unit act" where
  "Channel_open chan newid = (\<lambda>w.
     let ch = w_chans w chan; queue = ch_writeQueue ch in
     block
       [ upd_chan chan (\<lambda>ch. ch\<lparr>ch_id := Some newid, ch_connecting := False,
                                ch_writeQueue := None, ch_request := None\<rparr>),
         (case ch_connection ch of
            None \<Rightarrow> throw (TypeError ''Cannot set property of null'')
          | Some cn \<Rightarrow>
              upd_conn cn (\<lambda>c. c\<lparr>cn_channels := obj_set (cn_channels c) newid chan,
                                  cn_chanRefCount := cn_chanRefCount c + 1\<rparr>)),
         seq (drain_queue chan newid (case queue of None \<Rightarrow> [] | Some q \<Rightarrow> q) False)
             (\<lambda>r. case r of
                None \<Rightarrow> ret ()
              | Some flushed \<Rightarrow>
                  seq (\<lambda>w. if ch_closing (w_chans w chan) then
                              seq (unbound ''self'')
                                  (\<lambda>self w.
                                     case ch_endsig (w_chans w self) of
                                       Some packet \<Rightarrow>
                                         then_do
                                           (block
                                              [ upd_chan self (\<lambda>ch. ch\<lparr>ch_endsig := None\<rparr>),
                                                try_catch
                                                  (seq (Channel_writeOut chan
                                                          (packet\<lparr>f_id := Some newid\<rparr>))
                                                       (\<lambda>b. ret ()))
                                                  (\<lambda>e. ret ()) ])
                                           (ret True) w
                                     | None \<Rightarrow> (Inr False, w)) w
                            else (Inr False, w))
                      (\<lambda>returned.
                         if returned then ret ()
                         else block [ emit chan EvConnect, when_do flushed (emit chan EvDrain) ])) ] w)"

subsection \<open>Responses to an OpenRequest\<close>

text \<open>\<open>data.slice(start, end)\<close> and \<open>data.toString("utf8", start, end)\<close>.\<close>

definition slice_buf :: "bytes \<Rightarrow> nat \<Rightarrow> nat \<Rightarrow> bytes" where
  "slice_buf data start end = take (end - start) (drop start data)"

definition onresponse :: "nat \<Rightarrow> int \<Rightarrow> unit act" where
  "onresponse r newid = (\<lambda>w.
     case rq_chan (w_reqs w r) of
       None \<Rightarrow> (Inl (TypeError ''onresponse is not a function''), w)
     | Some chan \<Rightarrow> Channel_open chan newid w)"

text \<open>
  The first statement of \<open>processResponse\<close>, which settles the queue: on ALLOW the
  successors are destroyed, otherwise the successor becomes the head and is sent; with
  no successor the entry is deleted.
\<close>

definition response_queue_step :: "nat \<Rightarrow> int \<Rightarrow> unit act" where
  "response_queue_step r flag = (\<lambda>w.
     let rq = w_reqs w r; conn = rq_conn rq in
     (case rq_next rq of
        Some nx \<Rightarrow>
          if flag = FLAG_ALLOW then
            OpenRequest_destroyAndNext nx (Some (Error ''Channel is already open''))
          else
            block
              [ upd_req nx (\<lambda>q. q\<lparr>rq_prev := None\<rparr>),
                upd_conn conn (\<lambda>c. c\<lparr>cn_requests := obj_set (cn_requests c) (rq_id rq) nx\<rparr>),
                OpenRequest_send nx ]
      | None \<Rightarrow> upd_conn conn (\<lambda>c. c\<lparr>cn_requests := obj_delete (cn_requests c) (rq_id rq)\<rparr>)) w)"

definition OpenRequest_processResponse ::
  "platform \<Rightarrow> nat \<Rightarrow> int \<Rightarrow> bytes \<Rightarrow> nat \<Rightarrow> nat \<Rightarrow> unit act" where
  "OpenRequest_processResponse P r flag data start end = (\<lambda>w.
     let rq = w_reqs w r; conn = rq_conn rq in
     then_do
       (response_queue_step r flag)
       (if flag = FLAG_ALLOW then
          block [ onresponse r (rq_id rq), OpenRequest_destroy r None None ]
        else if flag = FLAG_REDIRECT then
          (if int end - int start \<noteq> 4 then
             Connection_destroy conn (Some (Error ''Bad open resp'')) None
           else
             block [ onresponse r (read_u32 data start), OpenRequest_destroy r None None ])
        else
          (let content = (if int end - int start \<noteq> 0
                          then Some (Buffer_toString P (slice_buf data start end) (Some ''utf8''))
                          else None)
           in OpenRequest_destroy r
                (Some (Error (case content of
                                None \<Rightarrow> ''ERR_OPEN_DENIED''
                              | Some c \<Rightarrow> if c = [] then ''ERR_OPEN_DENIED'' else c)))
                None)) w)"

subsection \<open>Connection: inbound dispatch\<close>

text \<open>
  \<open>processOpen\<close> names \<open>sock\<close> in its branch for an unknown id; no scope of
  \<open>processOpen\<close> binds that identifier.
\<close>

definition Connection_processOpen ::
  "platform \<Rightarrow> nat \<Rightarrow> int \<Rightarrow> int \<Rightarrow> bytes \<Rightarrow> nat \<Rightarrow> nat \<Rightarrow> unit act" where
  "Connection_processOpen P cn ident flag data start end = (\<lambda>w.
     case obj_get (cn_requests (w_conns w cn)) ident of
       None \<Rightarrow> seq (unbound ''sock'') (\<lambda>sock. sock_destroy sock) w
     | Some request \<Rightarrow> OpenRequest_processResponse P request flag data start end w)"

definition str_truthy :: "string option \<Rightarrow> bool" where
  "str_truthy s = (case s of None \<Rightarrow> False | Some t \<Rightarrow> t \<noteq> [])"

definition Channel_ondata :: "platform \<Rightarrow> nat \<Rightarrow> bytes \<Rightarrow> nat \<Rightarrow> nat \<Rightarrow> int \<Rightarrow> unit act" where
  "Channel_ondata P chan data start end flag = (\<lambda>w.
     let encoding = ch_encoding (w_chans w chan);
         message = slice_buf data start end
     in seq (if str_truthy encoding \<or> to_int32 flag AND 1 \<noteq> 0 then
               (if encoding = Some ''json'' then
                  (case JSON_parse P (Buffer_toString P message (Some ''utf8'')) of
                     Inl exception \<Rightarrow> then_do (Channel_destroy chan (Some exception)) (ret None)
                   | Inr v \<Rightarrow> ret (Some v))
                else ret (Some (JStr (Buffer_toString P message encoding))))
             else ret (Some (JBuffer message)))
            (\<lambda>m. case m of
               None \<Rightarrow> ret ()
             | Some msg \<Rightarrow> (\<lambda>w.
                 when_do (''data'' \<in> set (ch_events (w_chans w chan)))
                   (emit chan (EvData msg (sint (signed_drop_bit 1 (to_int32 flag)) + 1))) w)) w)"

definition Channel_onsignal :: "platform \<Rightarrow> nat \<Rightarrow> bytes \<Rightarrow> nat \<Rightarrow> nat \<Rightarrow> unit act" where
  "Channel_onsignal P chan data start end = (\<lambda>w.
     let message = (if int end - int start \<noteq> 0
                    then Some (Buffer_toString P (slice_buf data start end) (Some ''utf8''))
                    else None)
     in when_do (''signal'' \<in> set (ch_events (w_chans w chan))) (emit chan (EvSignal message)) w)"

definition Connection_processData ::
  "platform \<Rightarrow> nat \<Rightarrow> int \<Rightarrow> int \<Rightarrow> bytes \<Rightarrow> nat \<Rightarrow> nat \<Rightarrow> unit act" where
  "Connection_processData P cn ident flag data start end = (\<lambda>w.
     let channels = cn_channels (w_conns w cn) in
     if ident = ALL_CHANNELS then
       for_each (obj_keys channels) (\<lambda>chanid w.
         case obj_get (cn_channels (w_conns w cn)) chanid of
           None \<Rightarrow> (Inr (), w)
         | Some chan \<Rightarrow>
             when_do (ch_readable (w_chans w chan)) (Channel_ondata P chan data start end flag) w) w
     else
       (case obj_get channels ident of
          None \<Rightarrow> (Inr (), w)
        | Some chan \<Rightarrow>
            when_do (ch_readable (w_chans w chan)) (Channel_ondata P chan data start end flag) w))"

definition Connection_processSignal ::
  "platform \<Rightarrow> nat \<Rightarrow> int \<Rightarrow> int \<Rightarrow> bytes \<Rightarrow> nat \<Rightarrow> nat \<Rightarrow> unit act" where
  "Connection_processSignal P cn ident flag data start end = (\<lambda>w.
     let channels = cn_channels (w_conns w cn) in
     if flag = FLAG_EMIT then
       (if ident = ALL_CHANNELS then
          for_each (obj_keys channels) (\<lambda>chanid w.
            case obj_get (cn_channels (w_conns w cn)) chanid of
              None \<Rightarrow> (Inr (), w)
            | Some chan \<Rightarrow>
                when_do (\<not> ch_closing (w_chans w chan)) (Channel_onsignal P chan data start end) w) w
        else
          (case obj_get channels ident of
             None \<Rightarrow> (Inr (), w)
           | Some chan \<Rightarrow>
               when_do (\<not> ch_closing (w_chans w chan)) (Channel_onsignal P chan data start end) w))
     else if flag = FLAG_END \<or> flag = FLAG_ERROR then
       (let message = (if int end - int start \<noteq> 0
                       then Some (Buffer_toString P (slice_buf data start end) (Some ''utf8''))
                       else None);
            reason = (case message of
                      None \<Rightarrow> ''ERR_UNKNOWN''
                    | Some m \<Rightarrow> if m = [] then ''ERR_UNKNOWN'' else m)
        in if ident = ALL_CHANNELS then
             (if flag \<noteq> FLAG_END then Connection_destroy cn (Some (Error reason)) None w
              else Connection_destroy cn None message w)
           else
             (case obj_get channels ident of
                None \<Rightarrow> (Inr (), w)
              | Some chan \<Rightarrow>
                  if ch_closing (w_chans w chan) then
                    block
                      [ finalizeDestroyChannel chan None None,
                        (\<lambda>w. case obj_get (cn_requests (w_conns w cn)) ident of
                                Some r \<Rightarrow> OpenRequest_send r w
                              | None \<Rightarrow> (Inr (), w)) ] w
                  else
                    block
                      [ try_catch
                          (seq (Connection_write cn
                                  (PFrame \<lparr>f_kind = SignalFrame, f_id = Some ident,
                                           f_flag = FLAG_END, f_data = None\<rparr>))
                               (\<lambda>b. ret ()))
                          (\<lambda>writeException. Connection_destroy cn (Some writeException) None),
                        if flag \<noteq> FLAG_END then finalizeDestroyChannel chan (Some (Error reason)) None
                        else finalizeDestroyChannel chan None message ] w))
     else Connection_destroy cn (Some (Error ''Server sent an unknown SIGFLAG'')) None w)"

subsection \<open>The incremental parser\<close>

text \<open>The \<open>switch (op)\<close> of the parser.\<close>

definition dispatch ::
  "platform \<Rightarrow> nat \<Rightarrow> int \<Rightarrow> int \<Rightarrow> int \<Rightarrow> bytes \<Rightarrow> nat \<Rightarrow> nat \<Rightarrow> unit act" where
  "dispatch P conn op ch flag buffer start end =
     (if op = 0 then ret ()
      else if op = 1 then Connection_processOpen P conn ch flag buffer start end
      else if op = 2 then Connection_processData P conn ch flag buffer start end
      else if op = 3 then Connection_processSignal P conn ch flag buffer start end
      else ret ())"

text \<open>
  The \<open>while\<close> loop of \<open>sock.ondata\<close>.  \<open>buffer\<close>, \<open>offset\<close> and \<open>length\<close>
  are the variables of \<open>parserImplementation\<close>, which only the parser can reach:
  the loop carries them, and stores \<open>offset\<close> with the connection whenever it
  assigns it, so that the next chunk finds them as the source leaves them, also when a
  handler throws.  The result is \<open>None\<close> when the loop ends with \<open>return\<close> and
  the final \<open>offset\<close> when it ends by its condition or by \<open>break\<close>.
\<close>

function parser_loop ::
  "platform \<Rightarrow> nat \<Rightarrow> bytes \<Rightarrow> nat \<Rightarrow> nat \<Rightarrow> world \<Rightarrow> (jserror + nat option) \<times> world" where
  "parser_loop P conn buffer offset len w =
     (if offset < len \<and> conn_live (w_conns w conn) then
        (if offset + 2 > len then (Inr (Some offset), w)
         else
           (let packetlen = read_packetlen buffer offset in
            if packetlen < 7 then
              then_do (Connection_destroy conn (Some (Error ''bad packet size'')) None)
                      (ret None) w
            else if offset + packetlen > len then (Inr (Some offset), w)
            else
              (let ch = read_u32 buffer (offset + 2);
                   desc = rd buffer (offset + 6);
                   op = desc_op desc;
                   flag = desc_flag desc
               in case dispatch P conn op ch flag buffer (offset + 7) (offset + packetlen) w of
                    (Inl e, w') \<Rightarrow> (Inl e, w')
                  | (Inr u, w') \<Rightarrow>
                      parser_loop P conn buffer (offset + packetlen) len
                        (w'\<lparr>w_conns := (w_conns w')
                               (conn := (w_conns w' conn)\<lparr>cn_offset := offset + packetlen\<rparr>)\<rparr>))))
      else (Inr (Some offset), w))"
  by pat_completeness auto
termination
  by (relation "measure (\<lambda>(P, conn, buffer, offset, len, w). len - offset)") auto

declare parser_loop.simps [simp del]

text \<open>
  \<open>sock.ondata(chunk, start, end)\<close>, with \<open>0 \<le> start \<le> end \<le> chunk.length\<close> as
  the socket calls it.
\<close>

definition sock_ondata :: "platform \<Rightarrow> nat \<Rightarrow> bytes \<Rightarrow> nat \<Rightarrow> nat \<Rightarrow> unit act" where
  "sock_ondata P conn chunk start end = (\<lambda>w.
     let c = w_conns w conn;
         (buffer, offset, len) =
            (case cn_buffer c of
               Some old \<Rightarrow>
                 (let tmpbuff = slice_buf old (cn_offset c) (cn_length c) @ slice_buf chunk start end
                  in (tmpbuff, 0, length tmpbuff))
             | None \<Rightarrow> (chunk, start, end));
         w1 = w\<lparr>w_conns := (w_conns w)
                 (conn := c\<lparr>cn_buffer := Some buffer, cn_offset := offset, cn_length := len\<rparr>)\<rparr>
     in case parser_loop P conn buffer offset len w1 of
          (Inl e, w') \<Rightarrow> (Inl e, w')
        | (Inr None, w') \<Rightarrow> (Inr (), w')
        | (Inr (Some offset'), w') \<Rightarrow>
            if len = offset' then upd_conn conn (\<lambda>c. c\<lparr>cn_buffer := None\<rparr>) w'
            else (Inr (), w'))"

text \<open>
  What one call of \<open>sock.ondata\<close> on a chunk that holds exactly one frame is
  compared with: the parser takes the chunk, one handler of the connection is called
  once with the channel id, the flag and the payload bounds 7 and the end of the chunk,
  and when it returns the offset is at the end of the chunk and the buffer is let go.
\<close>

definition parser_take :: "nat \<Rightarrow> bytes \<Rightarrow> nat \<Rightarrow> nat \<Rightarrow> world \<Rightarrow> world" where
  "parser_take conn chunk start end w =
     w\<lparr>w_conns := (w_conns w)
         (conn := (w_conns w conn)\<lparr>cn_buffer := Some chunk, cn_offset := start, cn_length := end\<rparr>)\<rparr>"

definition parser_advance :: "nat \<Rightarrow> nat \<Rightarrow> world \<Rightarrow> world" where
  "parser_advance conn offset w =
     w\<lparr>w_conns := (w_conns w)(conn := (w_conns w conn)\<lparr>cn_offset := offset\<rparr>)\<rparr>"

definition parser_release :: "nat \<Rightarrow> world \<Rightarrow> world" where
  "parser_release conn w =
     w\<lparr>w_conns := (w_conns w)(conn := (w_conns w conn)\<lparr>cn_buffer := None\<rparr>)\<rparr>"

text \<open>
  The store after \<open>sock.ondata\<close> was handed, with no residue, a chunk that it can
  only keep: the parser holds the chunk from its start, and holds nothing when the chunk
  is empty.
\<close>

definition parser_hold :: "nat \<Rightarrow> bytes \<Rightarrow> world \<Rightarrow> world" where
  "parser_hold conn piece w =
     (if piece = [] then parser_release conn (parser_take conn piece 0 0 w)
      else parser_take conn piece 0 (length piece) w)"

definition one_call ::
  "(platform \<Rightarrow> nat \<Rightarrow> int \<Rightarrow> int \<Rightarrow> bytes \<Rightarrow> nat \<Rightarrow> nat \<Rightarrow> unit act) \<Rightarrow>
     platform \<Rightarrow> nat \<Rightarrow> int \<Rightarrow> int \<Rightarrow> bytes \<Rightarrow> unit act" where
  "one_call handler P conn ch flag chunk = (\<lambda>w.
     case handler P conn ch flag chunk 7 (length chunk)
            (parser_take conn chunk 0 (length chunk) w) of
       (Inl e, w') \<Rightarrow> (Inl e, w')
     | (Inr u, w') \<Rightarrow> (Inr (), parser_release conn (parser_advance conn (length chunk) w')))"

text \<open>
  The same for a frame that lies between \<open>start\<close> and \<open>end\<close> of a larger
  chunk, as the socket hands its buffers over.
\<close>

definition one_call_at ::
  "(platform \<Rightarrow> nat \<Rightarrow> int \<Rightarrow> int \<Rightarrow> bytes \<Rightarrow> nat \<Rightarrow> nat \<Rightarrow> unit act) \<Rightarrow>
     platform \<Rightarrow> nat \<Rightarrow> int \<Rightarrow> int \<Rightarrow> bytes \<Rightarrow> nat \<Rightarrow> nat \<Rightarrow> unit act" where
  "one_call_at handler P conn ch flag chunk start end = (\<lambda>w.
     case handler P conn ch flag chunk (start + 7) end
            (parser_take conn chunk start end w) of
       (Inl e, w') \<Rightarrow> (Inl e, w')
     | (Inr u, w') \<Rightarrow> (Inr (), parser_release conn (parser_advance conn end w')))"





subsection \<open>Opening a channel\<close>

definition Connection_open ::
  "nat \<Rightarrow> nat \<Rightarrow> int \<Rightarrow> int \<Rightarrow> bytes option \<Rightarrow> nat option act" where
  "Connection_open cn chan ident mode token = (\<lambda>w.
     let oldchan = obj_get (cn_channels (w_conns w cn)) ident in
     if (case oldchan of None \<Rightarrow> False | Some oc \<Rightarrow> \<not> ch_closing (w_chans w oc)) then
       then_do (nextTick (AlreadyOpen chan)) (ret None) w
     else
       seq (OpenRequest_new cn ident mode token)
           (\<lambda>request.
              block_then
                [ upd_req request (\<lambda>q. q\<lparr>rq_chan := Some chan\<rparr>),
                  (\<lambda>w. when_do (cn_sock (w_conns w cn) \<noteq> None \<and> oldchan = None)
                                (OpenRequest_send request) w) ]
                (Some request)) w)"

text \<open>
  \<open>new Connection(id)\<close> and \<open>connection.connect(url)\<close>: the handshake that
  \<open>getSock\<close> starts is Node's HTTP client at work; the model notes that it is under
  way.
\<close>

definition Connection_getConnection :: "url \<Rightarrow> nat act" where
  "Connection_getConnection u = (\<lambda>w.
     let ident = (case u_protocol u of None \<Rightarrow> ''undefined'' | Some p \<Rightarrow> p) @ u_host u in
     case w_all w ident of
       Some connection \<Rightarrow> (Inr connection, w)
     | None \<Rightarrow>
         (case w_disposed w ident of
            Some connection \<Rightarrow> then_do (Connection_setDisposed connection False) (ret connection) w
          | None \<Rightarrow>
              (let connection = w_nconns w;
                   w1 = w\<lparr>w_nconns := Suc connection,
                          w_conns := (w_conns w)
                            (connection := \<lparr>cn_id = Some ident, cn_chanRefCount = 0,
                                            cn_reqRefCount = 0, cn_channels = [],
                                            cn_requests = [], cn_sock = None,
                                            cn_buffer = None, cn_offset = 0, cn_length = 0\<rparr>),
                          w_all := (w_all w)(ident \<mapsto> connection),
                          w_handshakes := w_handshakes w @ [(connection, u)]\<rparr>
               in (Inr connection, w1))))"

definition new_channel :: channel where
  "new_channel =
     \<lparr>ch_id = None, ch_connecting = False, ch_closing = False, ch_destroyed = False,
      ch_connection = None, ch_request = None, ch_mode = None, ch_writeQueue = None,
      ch_encoding = None, ch_url = None, ch_endsig = None, ch_readable = False,
      ch_writable = False, ch_emitable = False, ch_events = []\<rparr>"

definition Channel_new :: "nat act" where
  "Channel_new = (\<lambda>w.
     let chan = w_nchans w
     in (Inr chan, w\<lparr>w_nchans := Suc chan, w_chans := (w_chans w)(chan := new_channel)\<rparr>))"

text \<open>
  \<open>connect\<close> declares \<open>var uri\<close> and never assigns it, and reads \<open>uri.query\<close>
  where it builds the token.  Reading a property of \<open>undefined\<close> throws a TypeError.
\<close>

definition get_query :: "url option \<Rightarrow> string option act" where
  "get_query obj =
     (case obj of
        None \<Rightarrow> throw (TypeError ''Cannot read property query of undefined'')
      | Some u \<Rightarrow> ret (u_query u))"

definition lift :: "jserror + 'a \<Rightarrow> 'a act" where
  "lift r = (case r of Inl e \<Rightarrow> throw e | Inr x \<Rightarrow> ret x)"

text \<open>The statements of \<open>connect\<close> that work out the channel id from the path.\<close>

definition connect_id :: "platform \<Rightarrow> url \<Rightarrow> jserror + int" where
  "connect_id P url =
     (case (case u_pathname url of
              None \<Rightarrow> Inr 1
            | Some pathname \<Rightarrow>
                if pathname \<noteq> [] \<and> length pathname \<noteq> 1 then
                  (case (if take 2 pathname = ''/x''
                         then parseInt P (''0'' @ drop 1 pathname)
                         else parseInt P (drop 1 pathname)) of
                     None \<Rightarrow> Inl (Error ''Invalid channel'')
                   | Some n \<Rightarrow> Inr n)
                else Inr 1) of
        Inl e \<Rightarrow> Inl e
      | Inr ident \<Rightarrow>
          if ident > 0xFFFFFFFF
          then Inl (Error ''Invalid channel expected no between x0 and xFFFFFFFF'')
          else Inr ident)"

text \<open>The URL that \<open>connect\<close> parses: \<open>http://\<close> is put in front when no scheme is.\<close>

definition connect_url :: "platform \<Rightarrow> string \<Rightarrow> url" where
  "connect_url P s =
     url_parse P (if prefix ''http://'' s \<or> prefix ''https://'' s then s else ''http://'' @ s)"

definition Channel_connect :: "platform \<Rightarrow> nat \<Rightarrow> jsval \<Rightarrow> jsval \<Rightarrow> unit act" where
  "Channel_connect P chan url_arg mode_arg = (\<lambda>w.
     let uri = (None :: url option) in
     if ch_connecting (w_chans w chan) then throw (Error ''Already connecting'') w
     else
       (case url_arg of
          JStr s \<Rightarrow>
            (let url = connect_url P s
             in if u_protocol url \<noteq> Some ''https:'' \<and> u_protocol url \<noteq> Some ''http:'' then
                  throw (Error ''bad protocol, expected `http` or `https`'') w
                else
                  seq (lift (connect_id P url))
                      (\<lambda>ident.
                         case getBinMode mode_arg of
                           None \<Rightarrow> throw (Error ''Invalid mode'')
                         | Some mode \<Rightarrow>
                             seq (if str_truthy (u_query url) then
                                    seq (get_query uri)
                                        (\<lambda>q. seq (lift (decodeURIComponent P
                                                          (case q of None \<Rightarrow> ''undefined'' | Some t \<Rightarrow> t)))
                                                  (\<lambda>d. ret (Some (new_Buffer P d (Some ''utf8'')))))
                                  else ret None)
                                 (\<lambda>token.
                                    seq (then_do
                                           (upd_chan chan (\<lambda>ch. ch\<lparr>
                                              ch_id := Some ident, ch_mode := Some mode,
                                              ch_connecting := True, ch_url := Some (u_href url),
                                              ch_readable := (mode AND READ = READ),
                                              ch_writable := (mode AND WRITE = WRITE),
                                              ch_emitable := (mode AND EMIT = EMIT)\<rparr>))
                                           (Connection_getConnection url))
                                        (\<lambda>connection.
                                           seq (then_do
                                                  (upd_chan chan (\<lambda>ch. ch\<lparr>ch_connection := Some connection\<rparr>))
                                                  (Connection_open connection chan ident mode token))
                                               (\<lambda>request.
                                                  upd_chan chan (\<lambda>ch. ch\<lparr>ch_request := request\<rparr>))))) w)
        | _ \<Rightarrow> throw (Error ''bad argument, `url`, expected String'') w))"

definition Channel_setEncoding :: "nat \<Rightarrow> string option \<Rightarrow> unit act" where
  "Channel_setEncoding chan encoding =
     (if str_truthy encoding \<and> \<not> VALID_ENCODINGS_RE_test (case encoding of None \<Rightarrow> [] | Some e \<Rightarrow> e)
      then throw (Error ''Encoding method not supported'')
      else upd_chan chan (\<lambda>ch. ch\<lparr>ch_encoding := encoding\<rparr>))"

subsection \<open>Channel: write, dispatch, end\<close>

text \<open>ToNumber; \<open>None\<close> is NaN.\<close>

definition to_number :: "platform \<Rightarrow> jsval \<Rightarrow> int option" where
  "to_number P v =
     (case v of
        JUndefined \<Rightarrow> None
      | JNull \<Rightarrow> Some 0
      | JBool b \<Rightarrow> Some (if b then 1 else 0)
      | JNum n \<Rightarrow> Some n
      | JNaN \<Rightarrow> None
      | JStr s \<Rightarrow> string_toNumber P s
      | JBuffer b \<Rightarrow> string_toNumber P (value_toString P v)
      | JObject \<Rightarrow> string_toNumber P (value_toString P v))"

definition js_toString :: "platform \<Rightarrow> jsval \<Rightarrow> string" where
  "js_toString P v = (case v of JStr s \<Rightarrow> s | _ \<Rightarrow> value_toString P v)"

text \<open>
  The payload of \<open>write\<close> and of \<open>dispatch\<close>: a Buffer as it is, anything else
  converted with the encoding.
\<close>

definition make_payload :: "platform \<Rightarrow> jsval \<Rightarrow> string option \<Rightarrow> jserror + bytes" where
  "make_payload P data encoding =
     (case data of
        JBuffer b \<Rightarrow> Inr b
      | _ \<Rightarrow>
          if str_truthy encoding
             \<and> \<not> VALID_ENCODINGS_RE_test (case encoding of None \<Rightarrow> [] | Some e \<Rightarrow> e)
          then Inl (Error ''Encoding method is not supported'')
          else if encoding = Some ''json''
          then Inr (new_Buffer P (JSON_stringify P data) (Some ''utf8''))
          else Inr (new_Buffer P (js_toString P data) encoding))"

text \<open>
  The second argument of \<open>write\<close> is the encoding when it is a non-empty string,
  and the third the priority, 1 when it is absent.
\<close>

definition write_encoding :: "jsval \<Rightarrow> string option" where
  "write_encoding arg1 = (case arg1 of JStr s \<Rightarrow> if s = [] then None else Some s | _ \<Rightarrow> None)"

definition write_flag :: "platform \<Rightarrow> jsval \<Rightarrow> int option" where
  "write_flag P arg2 =
     (case to_number P (if truthy arg2 then arg2 else JNum 1) of
        None \<Rightarrow> None
      | Some n \<Rightarrow> Some (n - 1))"

definition Channel_write :: "platform \<Rightarrow> nat \<Rightarrow> jsval \<Rightarrow> jsval \<Rightarrow> jsval \<Rightarrow> bool act" where
  "Channel_write P chan data arg1 arg2 = (\<lambda>w.
     let encoding = write_encoding arg1;
         flag = write_flag P arg2
     in if \<not> ch_writable (w_chans w chan) then throw (Error ''Channel is not writable'') w
        else
          (case flag of
             None \<Rightarrow> throw (Error ''Bad priority, expected Number between 1-4'') w
           | Some fl \<Rightarrow>
               if fl < 0 \<or> fl > 3 then
                 throw (Error ''Bad priority, expected Number between 1-4'') w
               else if \<not> truthy data then throw (Error ''Expected `data`'') w
               else
                 seq (lift (make_payload P data encoding))
                     (\<lambda>payload.
                        let flag2 = (case data of
                                       JBuffer b \<Rightarrow> sint (push_bit 1 (to_int32 fl) OR 0)
                                     | _ \<Rightarrow> sint (push_bit 1 (to_int32 fl) OR 1))
                        in if length payload > MAX_PAYLOAD_SIZE then
                             throw (Error ''Cannot send data, max length reach.'')
                           else
                             try_catch
                               (Channel_writeOut chan
                                  \<lparr>f_kind = DataFrame, f_id = ch_id (w_chans w chan),
                                   f_flag = flag2, f_data = Some payload\<rparr>)
                               (\<lambda>writeException.
                                  then_do (Channel_destroy chan (Some writeException))
                                          (ret False))) w))"

definition Channel_dispatch :: "platform \<Rightarrow> nat \<Rightarrow> jsval \<Rightarrow> string option \<Rightarrow> bool act" where
  "Channel_dispatch P chan data encoding = (\<lambda>w.
     if \<not> ch_emitable (w_chans w chan) then throw (Error ''Channel is not emitable.'') w
     else if \<not> truthy data then throw (Error ''Expected `data`'') w
     else
       seq (lift (make_payload P data encoding))
           (\<lambda>payload.
              if length payload > MAX_PAYLOAD_SIZE then
                throw (Error ''Cannot send data, max length reach.'')
              else
                try_catch
                  (Channel_writeOut chan
                     \<lparr>f_kind = SignalFrame, f_id = ch_id (w_chans w chan),
                      f_flag = FLAG_EMIT, f_data = Some payload\<rparr>)
                  (\<lambda>writeException.
                     then_do (Channel_destroy chan (Some writeException)) (ret False))) w)"

definition Channel_end :: "platform \<Rightarrow> nat \<Rightarrow> string option \<Rightarrow> unit act" where
  "Channel_end P chan message = (\<lambda>w.
     let ch = w_chans w chan in
     if ch_destroyed ch \<or> ch_closing ch then (Inr (), w)
     else
       (let payload = (if str_truthy message
                       then Some (new_Buffer P (case message of None \<Rightarrow> [] | Some m \<Rightarrow> m)
                                             (Some ''utf8''))
                       else None)
        in block
             [ upd_chan chan (\<lambda>ch. ch\<lparr>ch_endsig :=
                  Some \<lparr>f_kind = SignalFrame, f_id = ch_id ch, f_flag = FLAG_END,
                        f_data = payload\<rparr>\<rparr>),
               Channel_destroy chan None ] w))"

subsection \<open>The next tick\<close>

definition run_task :: "task \<Rightarrow> unit act" where
  "run_task t =
     (case t of
        SendRequest r \<Rightarrow>
          then_do (upd_req r (\<lambda>q. q\<lparr>rq_sent := True\<rparr>))
            (\<lambda>w. try_catch (seq (Connection_write (rq_conn (w_reqs w r)) (PRequest r)) (\<lambda>b. ret ()))
                            (\<lambda>err. Connection_destroy (rq_conn (w_reqs w r)) (Some err) None) w)
      | AlreadyOpen chan \<Rightarrow>
          finalizeDestroyChannel chan (Some (Error ''Channel is already open'')) None)"

subsection \<open>Concrete stores\<close>

text \<open>
  A platform and a few stores to run the definitions on: a store with nothing in it, a
  store with one live connection to \<open>localhost:7010\<close>, and one where channel 1 is
  open on that connection in mode \<open>rw\<close>.
\<close>

definition demo_url :: url where
  "demo_url =
     \<lparr>u_protocol = Some ''http:'', u_host = ''localhost:7010'',
      u_pathname = Some ''/x112233'', u_query = Some ''secret'',
      u_href = ''http://localhost:7010/x112233?secret''\<rparr>"

definition demo_platform :: platform where
  "demo_platform =
     \<lparr>url_parse = (\<lambda>s. demo_url),
      parseInt = (\<lambda>s. Some 1122867),
      decodeURIComponent = (\<lambda>s. Inr s),
      new_Buffer = (\<lambda>s enc. map (\<lambda>c. of_nat (of_char c)) s),
      Buffer_toString = (\<lambda>b enc. map (\<lambda>x. char_of (unat x)) b),
      value_toString = (\<lambda>v. ''[object Object]''),
      JSON_stringify = (\<lambda>v. ''null''),
      JSON_parse = (\<lambda>s. Inr JNull),
      string_toNumber = (\<lambda>s. None)\<rparr>"

definition demo_frame :: frame where
  "demo_frame = \<lparr>f_kind = DataFrame, f_id = Some 1122867, f_flag = 3, f_data = Some [1, 2, 3]\<rparr>"

definition demo_request :: request where
  "demo_request =
     \<lparr>rq_conn = 0, rq_id = 1122867, rq_flag = 3, rq_data = Some [1, 2, 3], rq_present = False,
      rq_sent = False, rq_destroyed = False, rq_prev = None, rq_next = None, rq_chan = None\<rparr>"

definition empty_world :: world where
  "empty_world =
     \<lparr>w_chans = (\<lambda>c. new_channel),
      w_reqs = (\<lambda>r. \<lparr>rq_conn = 0, rq_id = 0, rq_flag = 0, rq_data = None, rq_present = False,
                      rq_sent = False, rq_destroyed = False, rq_prev = None, rq_next = None,
                      rq_chan = None\<rparr>),
      w_conns = (\<lambda>c. \<lparr>cn_id = None, cn_chanRefCount = 0, cn_reqRefCount = 0, cn_channels = [],
                       cn_requests = [], cn_sock = None, cn_buffer = None, cn_offset = 0,
                       cn_length = 0\<rparr>),
      w_socks = (\<lambda>s. \<lparr>sk_written = [], sk_flushed = True, sk_failing = None, sk_timeout = 0,
                       sk_ontimeout = 0, sk_destroyed = False\<rparr>),
      w_nchans = 0, w_nreqs = 0, w_nconns = 0,
      w_all = Map.empty, w_disposed = Map.empty,
      w_ticks = [], w_handshakes = [], w_log = []\<rparr>"

definition live_world :: world where
  "live_world =
     empty_world
       \<lparr>w_conns := (w_conns empty_world)
          (0 := (w_conns empty_world 0)\<lparr>cn_id := Some ''http:localhost:7010'', cn_sock := Some 0\<rparr>),
        w_nconns := 1,
        w_all := [''http:localhost:7010'' \<mapsto> 0]\<rparr>"

definition open_world :: world where
  "open_world =
     live_world
       \<lparr>w_chans := (w_chans live_world)
          (0 := new_channel\<lparr>ch_id := Some 1, ch_connection := Some 0, ch_mode := Some 3,
                             ch_url := Some ''http://localhost:7010/1'',
                             ch_readable := True, ch_writable := True,
                             ch_events := [''data'', ''signal'']\<rparr>),
        w_nchans := 1,
        w_conns := (w_conns live_world)
          (0 := (w_conns live_world 0)\<lparr>cn_channels := [(1, 0)], cn_chanRefCount := 1\<rparr>)\<rparr>"

text \<open>
  A channel that \<open>new Channel()\<close> has made and nothing has connected; a channel
  that waits for the answer to its OpenRequest for id 1, which is on the wire; and the
  same with a second channel behind it, whose OpenRequest for id 1 is queued after the
  first and has its transmission scheduled for the next tick.
\<close>

definition unconnected_world :: world where
  "unconnected_world = empty_world\<lparr>w_nchans := 1\<rparr>"

definition opening_world :: world where
  "opening_world =
     live_world
       \<lparr>w_chans := (w_chans live_world)
          (0 := new_channel\<lparr>ch_id := Some 1, ch_connecting := True, ch_connection := Some 0,
                             ch_request := Some 0, ch_mode := Some 3,
                             ch_url := Some ''http://localhost:7010/1'',
                             ch_readable := True, ch_writable := True\<rparr>),
        w_nchans := 1,
        w_reqs := (w_reqs live_world)
          (0 := \<lparr>rq_conn = 0, rq_id = 1, rq_flag = 3, rq_data = None, rq_present = True,
                  rq_sent = True, rq_destroyed = False, rq_prev = None, rq_next = None,
                  rq_chan = Some 0\<rparr>),
        w_nreqs := 1,
        w_conns := (w_conns live_world)
          (0 := (w_conns live_world 0)\<lparr>cn_requests := [(1, 0)], cn_reqRefCount := 1\<rparr>)\<rparr>"

definition queue_world :: world where
  "queue_world =
     opening_world
       \<lparr>w_chans := (w_chans opening_world)
          (1 := new_channel\<lparr>ch_id := Some 1, ch_connecting := True, ch_connection := Some 0,
                             ch_request := Some 1, ch_mode := Some 3,
                             ch_url := Some ''http://localhost:7010/1'',
                             ch_readable := True, ch_writable := True\<rparr>),
        w_nchans := 2,
        w_reqs := (w_reqs opening_world)
          (0 := (w_reqs opening_world 0)\<lparr>rq_next := Some 1\<rparr>,
           1 := \<lparr>rq_conn = 0, rq_id = 1, rq_flag = 3, rq_data = None, rq_present = True,
                  rq_sent = False, rq_destroyed = False, rq_prev = None, rq_next = None,
                  rq_chan = Some 1\<rparr>),
        w_nreqs := 2,
        w_conns := (w_conns opening_world)
          (0 := (w_conns opening_world 0)\<lparr>cn_reqRefCount := 2\<rparr>),
        w_ticks := [SendRequest 1]\<rparr>"




text \<open>Properties of the store that the proofs below carry through a call.\<close>

definition dead :: "nat \<Rightarrow> world \<Rightarrow> bool" where
  "dead cn w = (cn_id (w_conns w cn) = None)"



subsection \<open>What destroying a connection with an error leaves\<close>

text \<open>
  The vocabulary for stating what \<open>Connection.destroy(err)\<close> does; none of it is
  part of the program.  A channel as \<open>finalizeDestroyChannel\<close> leaves it, and the two
  events it emits for each of a list of channels.
\<close>

definition finalized :: "channel \<Rightarrow> channel" where
  "finalized ch = ch\<lparr>ch_id := None, ch_readable := False, ch_writable := False,
                     ch_emitable := False, ch_destroyed := True, ch_request := None,
                     ch_connection := None\<rparr>"









subsection \<open>What a call keeps\<close>

text \<open>A property of the store that holds after a call whenever it held before.\<close>

definition keeps :: "(world \<Rightarrow> bool) \<Rightarrow> 'a act \<Rightarrow> bool" where
  "keeps I m = (\<forall>w. I w \<longrightarrow> I (snd (m w)))"

subsection \<open>Further stores\<close>

text \<open>
  Channel 1 open as before, with listeners for \<open>data\<close> and \<open>signal\<close>, and a
  second channel waiting for the answer to its OpenRequest for id 0.
\<close>

definition busy_world :: world where
  "busy_world =
     open_world
       \<lparr>w_chans := (w_chans open_world)
          (1 := new_channel\<lparr>ch_id := Some 0, ch_connecting := True, ch_connection := Some 0,
                             ch_request := Some 0, ch_mode := Some 3,
                             ch_url := Some ''http://localhost:7010/0'',
                             ch_readable := True, ch_writable := True\<rparr>),
        w_nchans := 2,
        w_reqs := (w_reqs open_world)
          (0 := \<lparr>rq_conn = 0, rq_id = 0, rq_flag = 3, rq_data = None, rq_present = True,
                  rq_sent = True, rq_destroyed = False, rq_prev = None, rq_next = None,
                  rq_chan = Some 1\<rparr>),
        w_nreqs := 1,
        w_conns := (w_conns open_world)
          (0 := (w_conns open_world 0)\<lparr>cn_requests := [(0, 0)], cn_reqRefCount := 1\<rparr>)\<rparr>"

text \<open>
  The same store with a listener for \<open>error\<close> on every channel; and the store with
  the channel that waits for its answer, which has one DataFrame queued meanwhile.
\<close>

definition heard_world :: world where
  "heard_world =
     busy_world\<lparr>w_chans := (\<lambda>c. (w_chans busy_world c)\<lparr>ch_events := [''error'', ''data'', ''signal'']\<rparr>)\<rparr>"

definition queued_world :: world where
  "queued_world =
     opening_world
       \<lparr>w_chans := (w_chans opening_world)
          (0 := (w_chans opening_world 0)
             \<lparr>ch_writeQueue := Some [\<lparr>f_kind = DataFrame, f_id = Some 1, f_flag = 0,
                                        f_data = Some [65]\<rparr>]\<rparr>)\<rparr>"

section \<open>Properties\<close>

subsection \<open>Bytes of a header\<close>

lemma store_byte_uint: "store_byte (uint (w :: 32 word)) = (ucast w :: 8 word)"
  by (simp add: store_byte_def)

lemma ucast_word_of_int8: "(ucast (word_of_int a :: 32 word) :: 8 word) = word_of_int a"
  apply (rule bit_word_eqI)
  apply (simp add: bit_simps)
  done

lemma u16_join:
  fixes w :: "32 word"
  shows "push_bit 8 (ucast (ucast (drop_bit 8 w) :: 8 word) :: 32 word) OR ucast (ucast w :: 8 word)
         = take_bit 16 w"
  apply (rule bit_word_eqI)
  apply (simp add: bit_simps)
  apply (auto simp: le_diff_conv2)
  done

lemma u24_join:
  fixes w :: "32 word"
  shows "push_bit 16 (ucast (ucast (drop_bit 16 w) :: 8 word) :: 32 word)
         OR push_bit 8 (ucast (ucast (drop_bit 8 w) :: 8 word)) OR ucast (ucast w :: 8 word)
         = take_bit 24 w"
  apply (rule bit_word_eqI)
  apply (simp add: bit_simps)
  apply (auto simp: le_diff_conv2)
  subgoal for n by (cases "16 \<le> n") simp_all
  done

lemma u32_top:
  fixes w :: "32 word"
  shows "push_bit 24 (ucast (ucast (drop_bit 24 w) :: 8 word) :: 32 word)
         = push_bit 24 (drop_bit 24 w)"
  apply (rule bit_word_eqI)
  apply (simp add: bit_simps)
  apply (auto simp: le_diff_conv2)
  done

lemma js_rem_cong: "js_rem a 256 mod 256 = a mod 256"
proof (cases "0 \<le> a")
  case True
  then show ?thesis by (cases "a = 0") (simp_all add: js_rem_def)
next
  case False
  then have "js_rem a 256 = - ((- a) mod 256)" by (simp add: js_rem_def)
  then show ?thesis by (simp add: mod_minus_eq)
qed

lemma store_byte_js_rem: "store_byte (js_rem a 256) = (word_of_int a :: 8 word)"
  using js_rem_cong [of a]
  by (simp add: store_byte_def word_of_int_eq_iff take_bit_eq_mod)

lemma sint_small: "uint (x :: 32 word) < 2 ^ 31 \<Longrightarrow> sint x = uint x"
proof -
  assume a: "uint x < 2 ^ 31"
  have "- (2 ^ 31) \<le> (0 :: int)" by simp
  also have "0 \<le> uint x" by simp
  finally have "signed_take_bit 31 (uint x) = uint x"
    using a by (rule signed_take_bit_int_eq_self)
  then show ?thesis by (simp add: sint_uint)
qed

lemma uint_take16: "uint (take_bit 16 (w :: 32 word)) = uint w mod 65536"
  by (simp only: unsigned_take_bit_eq) (simp add: take_bit_eq_mod)

lemma uint_take24: "uint (take_bit 24 (w :: 32 word)) = uint w mod 16777216"
  by (simp only: unsigned_take_bit_eq) (simp add: take_bit_eq_mod)

lemma sint_take16: "sint (take_bit 16 (w :: 32 word)) = uint w mod 65536"
proof -
  have "uint (take_bit 16 w) < 2 ^ 31"
    using pos_mod_bound [of 65536 "uint w"] by (simp only: uint_take16) simp
  then show ?thesis by (simp only: sint_small uint_take16)
qed

lemma sint_take24: "sint (take_bit 24 (w :: 32 word)) = uint w mod 16777216"
proof -
  have "uint (take_bit 24 w) < 2 ^ 31"
    using pos_mod_bound [of 16777216 "uint w"] by (simp only: uint_take24) simp
  then show ?thesis by (simp only: sint_small uint_take24)
qed

lemma uint_top:
  "uint (push_bit 24 (drop_bit 24 (w :: 32 word))) = 16777216 * (uint w div 16777216)"
proof -
  have b: "uint w < 2 ^ 32" using uint_bounded [of w] by simp
  have n: "0 \<le> uint w" by simp
  have "uint (push_bit 24 (drop_bit 24 w)) = take_bit 32 (push_bit 24 (drop_bit 24 (uint w)))"
    using b n
    by (simp only: unsigned_push_bit_eq unsigned_drop_bit_eq) (simp add: take_bit_int_eq_self)
  also have "\<dots> = (16777216 * (uint w div 16777216)) mod 2 ^ 32"
    by (simp add: push_bit_eq_mult drop_bit_eq_div take_bit_eq_mod mult.commute)
  also have "\<dots> = 16777216 * (uint w div 16777216)"
    using b n by (intro mod_pos_pos_trivial) (simp_all add: pos_imp_zdiv_nonneg_iff)
  finally show ?thesis .
qed

lemma uint_to_int32: "0 \<le> i \<Longrightarrow> i < 2 ^ 32 \<Longrightarrow> uint (to_int32 i) = i"
  by (simp add: to_int32_def uint_word_of_int take_bit_eq_mod)

lemma uint_to_int32_mod: "uint (to_int32 i) = i mod 2 ^ 32"
  by (simp add: to_int32_def uint_word_of_int)

lemma length_header_bytes: "length (header_bytes opc len ident flag) = 7"
  by (simp add: header_bytes_def)

lemma length_packet_bytes:
  "length (packet_bytes opc ident flag data)
     = 7 + (case data of None \<Rightarrow> 0 | Some d \<Rightarrow> length d)"
  by (simp add: packet_bytes_def length_header_bytes Let_def split: option.splits)

lemma rd_packet_bytes:
  "i < 7 \<Longrightarrow> rd (packet_bytes opc ident flag data) i =
     ucast (header_bytes opc (int (7 + (case data of None \<Rightarrow> 0 | Some d \<Rightarrow> length d)))
              (num_of ident) flag ! i)"
  by (simp add: rd_def packet_bytes_def Let_def nth_append length_header_bytes)

lemma store_low: "store_byte (js_rem a 256) = ucast (to_int32 a)"
  by (simp add: store_byte_js_rem to_int32_def ucast_word_of_int8)

lemma nat_int_mod: "nat (int n mod 65536) = n mod 65536"
proof -
  have "int n mod 65536 = int (n mod 65536)" by (simp add: zmod_int)
  then show ?thesis by (simp only: nat_int)
qed

text \<open>The length field of an encoded packet is its length modulo \<open>2^16\<close>.\<close>

lemma read_packetlen_packet_bytes:
  "read_packetlen (packet_bytes opc ident flag data) 0 =
     (7 + (case data of None \<Rightarrow> 0 | Some d \<Rightarrow> length d)) mod 65536"
proof -
  let ?n = "7 + (case data of None \<Rightarrow> 0 | Some d \<Rightarrow> length d)"
  have "read_packetlen (packet_bytes opc ident flag data) 0
          = nat (sint (take_bit 16 (to_int32 (int ?n))))"
    unfolding read_packetlen_def
    by (simp add: rd_packet_bytes header_bytes_def store_byte_uint store_low u16_join)
  also have "\<dots> = nat (int ?n mod 65536)"
    by (simp only: sint_take16 uint_to_int32_mod) (simp add: mod_mod_cancel)
  also have "\<dots> = ?n mod 65536"
    by (rule nat_int_mod)
  finally show ?thesis .
qed

lemma read_u32_packet_bytes:
  assumes "0 \<le> i" "i < 2 ^ 32"
  shows "read_u32 (packet_bytes opc (Some i) flag data) 2 = i"
proof -
  have "read_u32 (packet_bytes opc (Some i) flag data) 2
        = sint (take_bit 24 (to_int32 i)) + uint (push_bit 24 (drop_bit 24 (to_int32 i)))"
    unfolding read_u32_def
    by (simp add: rd_packet_bytes header_bytes_def store_byte_uint store_low u24_join u32_top
          num_of_def)
  also have "\<dots> = uint (to_int32 i) mod 16777216 + 16777216 * (uint (to_int32 i) div 16777216)"
    by (simp only: sint_take24 uint_top)
  also have "\<dots> = uint (to_int32 i)" by simp
  also have "\<dots> = i" using assms by (simp add: uint_to_int32)
  finally show ?thesis .
qed

lemma desc_roundtrip:
  assumes "opc = 1 \<or> opc = 2 \<or> opc = 3" "0 \<le> flag" "flag \<le> 7"
  shows "desc_op (rd (packet_bytes opc ident flag data) 6) = opc \<and>
         desc_flag (rd (packet_bytes opc ident flag data) 6) = flag"
proof -
  from assms(2,3)
  have "flag = 0 \<or> flag = 1 \<or> flag = 2 \<or> flag = 3 \<or> flag = 4 \<or> flag = 5 \<or> flag = 6 \<or> flag = 7"
    by presburger
  with assms(1) show ?thesis
    by (auto simp: rd_packet_bytes header_bytes_def desc_op_def desc_flag_def to_int32_def
          store_byte_def)
qed

lemma slice_packet_bytes:
  "slice_buf (packet_bytes opc ident flag data) 7 (length (packet_bytes opc ident flag data))
     = (case data of None \<Rightarrow> [] | Some d \<Rightarrow> d)"
  by (simp add: length_packet_bytes slice_buf_def packet_bytes_def Let_def length_header_bytes
        split: option.splits)

subsection \<open>One turn of the parser's loop\<close>

lemma parser_loop_stop:
  "\<not> (offset < len \<and> conn_live (w_conns w conn)) \<Longrightarrow>
     parser_loop P conn buffer offset len w = (Inr (Some offset), w)"
  by (subst parser_loop.simps) simp

lemma parser_loop_bad:
  "offset < len \<Longrightarrow> conn_live (w_conns w conn) \<Longrightarrow> offset + 2 \<le> len \<Longrightarrow>
   read_packetlen buffer offset < 7 \<Longrightarrow>
     parser_loop P conn buffer offset len w =
       then_do (Connection_destroy conn (Some (Error ''bad packet size'')) None) (ret None) w"
  by (subst parser_loop.simps) (simp add: Let_def)

lemma parser_loop_wait:
  "7 \<le> read_packetlen buffer offset \<Longrightarrow> len < offset + read_packetlen buffer offset \<Longrightarrow>
     parser_loop P conn buffer offset len w = (Inr (Some offset), w)"
  by (subst parser_loop.simps) (simp add: Let_def)

lemma parser_loop_frame:
  "conn_live (w_conns w conn) \<Longrightarrow> 7 \<le> read_packetlen buffer offset \<Longrightarrow>
   offset + read_packetlen buffer offset \<le> len \<Longrightarrow>
     parser_loop P conn buffer offset len w =
       (case dispatch P conn (desc_op (rd buffer (offset + 6))) (read_u32 buffer (offset + 2))
                      (desc_flag (rd buffer (offset + 6))) buffer (offset + 7)
                      (offset + read_packetlen buffer offset) w of
          (Inl e, w') \<Rightarrow> (Inl e, w')
        | (Inr u, w') \<Rightarrow>
            parser_loop P conn buffer (offset + read_packetlen buffer offset) len
              (parser_advance conn (offset + read_packetlen buffer offset) w'))"
  by (subst parser_loop.simps)
     (simp add: Let_def parser_advance_def split: prod.splits sum.splits)

lemma parser_loop_frame0:
  assumes "conn_live (w_conns w conn)" "7 \<le> read_packetlen buffer 0"
    "read_packetlen buffer 0 \<le> len"
  shows "parser_loop P conn buffer 0 len w =
       (case dispatch P conn (desc_op (rd buffer 6)) (read_u32 buffer 2)
                      (desc_flag (rd buffer 6)) buffer 7 (read_packetlen buffer 0) w of
          (Inl e, w') \<Rightarrow> (Inl e, w')
        | (Inr u, w') \<Rightarrow>
            parser_loop P conn buffer (read_packetlen buffer 0) len
              (parser_advance conn (read_packetlen buffer 0) w'))"
  using parser_loop_frame [of w conn buffer 0 len P] assms
  by (simp only: add.left_neutral)

lemma sock_ondata_packet_bytes:
  assumes live: "conn_live (w_conns w conn)"
    and fresh: "cn_buffer (w_conns w conn) = None"
    and i: "0 \<le> i" "i < 2 ^ 32"
    and opc: "opc = 1 \<or> opc = 2 \<or> opc = 3"
    and flag: "0 \<le> flag" "flag \<le> 7"
    and size: "(case data of None \<Rightarrow> 0 | Some d \<Rightarrow> length d) \<le> MAX_PAYLOAD_SIZE"
    and b: "b = packet_bytes opc (Some i) flag data"
    and h: "handler = (if opc = 1 then Connection_processOpen
                       else if opc = 2 then Connection_processData
                       else Connection_processSignal)"
  shows "sock_ondata P conn b 0 (length b) w = one_call handler P conn i flag b w"
proof -
  let ?n = "7 + (case data of None \<Rightarrow> 0 | Some d \<Rightarrow> length d)"
  let ?w1 = "parser_take conn b 0 (length b) w"
  have len: "length b = ?n" by (simp add: b length_packet_bytes)
  have "?n < 65536" using size by (simp add: MAX_PAYLOAD_SIZE_def)
  then have plen: "read_packetlen b 0 = length b"
    by (simp add: b read_packetlen_packet_bytes length_packet_bytes)
  have live1: "conn_live (w_conns ?w1 conn)"
    using live by (simp add: parser_take_def conn_live_def)
  have dec: "desc_op (rd b 6) = opc" "desc_flag (rd b 6) = flag" "read_u32 b 2 = i"
    using desc_roundtrip [OF opc flag, of "Some i" data]
      read_u32_packet_bytes [OF i, of opc flag data]
    by (simp_all add: b)
  have seven: "7 \<le> read_packetlen b 0" by (simp add: plen len)
  have dh: "dispatch P conn opc i flag b 7 (length b) = handler P conn i flag b 7 (length b)"
    using opc h by (auto simp: dispatch_def)
  have step: "parser_loop P conn b 0 (length b) ?w1 =
      (case handler P conn i flag b 7 (length b) ?w1 of
         (Inl e, w') \<Rightarrow> (Inl e, w')
       | (Inr u, w') \<Rightarrow> (Inr (Some (length b)), parser_advance conn (length b) w'))"
    using parser_loop_frame0 [OF live1 seven, of "length b" P]
    by (simp only: plen dec order_refl dh)
       (simp add: parser_loop_stop split: prod.splits sum.splits)
  have init: "w\<lparr>w_conns := (w_conns w)
                 (conn := (w_conns w conn)\<lparr>cn_buffer := Some b, cn_offset := 0,
                                             cn_length := length b\<rparr>)\<rparr> = ?w1"
    by (simp add: parser_take_def)
  show ?thesis
  proof (cases "handler P conn i flag b 7 (length b) ?w1")
    case (Pair r w')
    then show ?thesis
      unfolding sock_ondata_def one_call_def
      by (cases r)
         (simp_all add: fresh Let_def init step upd_conn_def modify_def parser_release_def
            parser_advance_def)
  qed
qed

subsection \<open>A frame that arrives in two pieces\<close>

lemma sock_ondata_residue:
  assumes "cn_buffer (w_conns w conn) = Some old"
  shows "sock_ondata P conn chunk start end w
       = sock_ondata P conn
           (slice_buf old (cn_offset (w_conns w conn)) (cn_length (w_conns w conn))
              @ slice_buf chunk start end)
           0
           (length (slice_buf old (cn_offset (w_conns w conn)) (cn_length (w_conns w conn))
                      @ slice_buf chunk start end))
           (parser_release conn w)"
  using assms by (simp add: sock_ondata_def parser_release_def Let_def)

lemma sock_ondata_fresh:
  assumes "cn_buffer (w_conns w conn) = None"
  shows "sock_ondata P conn chunk start end w =
     (case parser_loop P conn chunk start end (parser_take conn chunk start end w) of
          (Inl e, w') \<Rightarrow> (Inl e, w')
        | (Inr None, w') \<Rightarrow> (Inr (), w')
        | (Inr (Some offset'), w') \<Rightarrow>
            (Inr (), if end = offset' then parser_release conn w' else w'))"
  using assms
  by (simp add: sock_ondata_def parser_take_def parser_release_def Let_def upd_conn_def modify_def
        split: prod.splits sum.splits option.splits)

lemma parser_take_take:
  "parser_take conn b s e (parser_take conn b' s' e' w) = parser_take conn b s e w"
  by (simp add: parser_take_def)

lemma parser_take_release:
  "parser_take conn b s e (parser_release conn w) = parser_take conn b s e w"
  by (simp add: parser_take_def parser_release_def)

lemma rd_take: "i < k \<Longrightarrow> rd (take k b) i = rd b i"
  by (simp add: rd_def)

lemma read_packetlen_take: "2 \<le> k \<Longrightarrow> read_packetlen (take k b) 0 = read_packetlen b 0"
  by (simp add: read_packetlen_def rd_take)

lemma sock_ondata_first_piece:
  assumes live: "conn_live (w_conns w conn)" and fresh: "cn_buffer (w_conns w conn) = None"
    and n: "7 \<le> read_packetlen b 0" "read_packetlen b 0 = length b" and k: "k < length b"
  shows "sock_ondata P conn (take k b) 0 k w = (Inr (), parser_hold conn (take k b) w)
       \<and> sock_ondata P conn (drop k b) 0 (length b - k) (parser_hold conn (take k b) w)
           = sock_ondata P conn b 0 (length b) w"
proof -
  let ?w1 = "parser_take conn (take k b) 0 k w"
  have loop: "parser_loop P conn (take k b) 0 k ?w1 = (Inr (Some 0), ?w1)"
  proof (cases "k < 2")
    case True
    then show ?thesis by (subst parser_loop.simps) simp
  next
    case False
    then have "read_packetlen (take k b) 0 = length b" using n by (simp add: read_packetlen_take)
    then show ?thesis
      using parser_loop_wait [of "take k b" 0 k P conn ?w1] n k by simp
  qed
  show ?thesis
  proof (cases "k = 0")
    case True
    then have h: "parser_hold conn (take k b) w = parser_release conn ?w1"
      by (simp add: parser_hold_def)
    have "sock_ondata P conn (take k b) 0 k w = (Inr (), parser_release conn ?w1)"
      using True loop fresh by (simp add: sock_ondata_fresh)
    moreover have "sock_ondata P conn (drop k b) 0 (length b - k) (parser_release conn ?w1)
                = sock_ondata P conn b 0 (length b) w"
      using True fresh
      by (simp add: sock_ondata_fresh parser_release_def parser_take_def)
    ultimately show ?thesis unfolding h by blast
  next
    case False
    then have h: "parser_hold conn (take k b) w = ?w1"
      using k by (auto simp: parser_hold_def)
    have "sock_ondata P conn (take k b) 0 k w = (Inr (), ?w1)"
      using False loop fresh by (simp add: sock_ondata_fresh)
    moreover have "sock_ondata P conn (drop k b) 0 (length b - k) ?w1
                = sock_ondata P conn b 0 (length b) w"
    proof -
      have b: "cn_buffer (w_conns ?w1 conn) = Some (take k b)"
        "cn_offset (w_conns ?w1 conn) = 0" "cn_length (w_conns ?w1 conn) = k"
        by (simp_all add: parser_take_def)
      have cat: "slice_buf (take k b) 0 k @ slice_buf (drop k b) 0 (length b - k) = b"
        using k by (simp add: slice_buf_def)
      have "sock_ondata P conn (drop k b) 0 (length b - k) ?w1
              = sock_ondata P conn b 0 (length b) (parser_release conn ?w1)"
        using sock_ondata_residue [OF b(1), of P "drop k b" 0 "length b - k"]
        by (simp only: b cat)
      also have "\<dots> = sock_ondata P conn b 0 (length b) w"
        using fresh
        by (simp add: sock_ondata_fresh parser_take_release parser_take_take parser_release_def
              parser_take_def)
      finally show ?thesis .
    qed
    ultimately show ?thesis unfolding h by blast
  qed
qed

lemma packet_in_pieces:
  assumes live: "conn_live (w_conns w conn)"
    and fresh: "cn_buffer (w_conns w conn) = None"
    and i: "0 \<le> i" "i < 2 ^ 32"
    and opc: "opc = 1 \<or> opc = 2 \<or> opc = 3"
    and flag: "0 \<le> flag" "flag \<le> 7"
    and size: "(case data of None \<Rightarrow> 0 | Some d \<Rightarrow> length d) \<le> MAX_PAYLOAD_SIZE"
    and b: "b = packet_bytes opc (Some i) flag data"
    and h: "handler = (if opc = 1 then Connection_processOpen
                       else if opc = 2 then Connection_processData
                       else Connection_processSignal)"
    and k: "k < length b"
  shows "sock_ondata P conn (take k b) 0 k w = (Inr (), parser_hold conn (take k b) w)
       \<and> sock_ondata P conn (drop k b) 0 (length b - k) (parser_hold conn (take k b) w)
           = one_call handler P conn i flag b w"
proof -
  let ?n = "7 + (case data of None \<Rightarrow> 0 | Some d \<Rightarrow> length d)"
  have len: "length b = ?n" by (simp add: b length_packet_bytes)
  have "?n < 65536" using size by (simp add: MAX_PAYLOAD_SIZE_def)
  then have plen: "read_packetlen b 0 = length b"
    by (simp add: b read_packetlen_packet_bytes length_packet_bytes)
  have seven: "7 \<le> read_packetlen b 0" by (simp add: plen len)
  from sock_ondata_first_piece [OF live fresh seven plen k, of P]
    sock_ondata_packet_bytes [OF live fresh i opc flag size b h, of P]
  show ?thesis by simp
qed

lemma one_call_at_0: "one_call_at h P conn ch flag chunk 0 (length chunk) = one_call h P conn ch flag chunk"
  by (simp add: one_call_at_def one_call_def)

lemma rd_slice:
  "start + i < stop \<Longrightarrow> stop \<le> length chunk \<Longrightarrow>
     rd (slice_buf chunk start stop) i = rd chunk (start + i)"
  by (auto simp: rd_def slice_buf_def)

lemma sock_ondata_embedded:
  assumes live: "conn_live (w_conns w conn)"
    and fresh: "cn_buffer (w_conns w conn) = None"
    and i: "0 \<le> i" "i < 2 ^ 32"
    and opc: "opc = 1 \<or> opc = 2 \<or> opc = 3"
    and flag: "0 \<le> flag" "flag \<le> 7"
    and size: "(case data of None \<Rightarrow> 0 | Some d \<Rightarrow> length d) \<le> MAX_PAYLOAD_SIZE"
    and b: "b = packet_bytes opc (Some i) flag data"
    and h: "handler = (if opc = 1 then Connection_processOpen
                       else if opc = 2 then Connection_processData
                       else Connection_processSignal)"
    and inb: "stop \<le> length chunk" and sl: "slice_buf chunk start stop = b"
  shows "sock_ondata P conn chunk start stop w = one_call_at handler P conn i flag chunk start stop w
       \<and> slice_buf chunk (start + 7) stop = (case data of None \<Rightarrow> [] | Some d \<Rightarrow> d)"
proof -
  let ?n = "7 + (case data of None \<Rightarrow> 0 | Some d \<Rightarrow> length d)"
  let ?w1 = "parser_take conn chunk start stop w"
  have len: "length b = ?n" by (simp add: b length_packet_bytes)
  have lb: "length b = stop - start" using sl [symmetric] inb by (simp add: slice_buf_def)
  have ss: "start + ?n = stop" using len lb by simp
  have "?n < 65536" using size by (simp add: MAX_PAYLOAD_SIZE_def)
  then have plen0: "read_packetlen b 0 = length b"
    by (simp add: b read_packetlen_packet_bytes length_packet_bytes)
  have rdb: "rd chunk (start + k) = rd b k" if "k < 7" for k
    using rd_slice [of start k stop chunk] that ss inb sl by simp
  have plen: "read_packetlen chunk start = length b"
    using plen0 rdb [of 0] rdb [of 1] by (simp add: read_packetlen_def)
  have dec0: "desc_op (rd b 6) = opc" "desc_flag (rd b 6) = flag" "read_u32 b 2 = i"
    using desc_roundtrip [OF opc flag, of "Some i" data]
      read_u32_packet_bytes [OF i, of opc flag data]
    by (simp_all add: b)
  have r6: "rd chunk (start + 6) = rd b 6" using rdb [of 6] by simp
  have rdb2: "rd chunk (start + 2 + k) = rd b (2 + k)" if "k < 5" for k
    using rdb [of "2 + k"] that by (simp add: add.assoc)
  have "read_u32 chunk (start + 2) = read_u32 b 2"
    unfolding read_u32_def rdb2 [of 1, simplified] rdb2 [of 2, simplified]
      rdb2 [of 3, simplified] rdb [of 2, simplified]
    using rdb2 [of 1] rdb2 [of 2] rdb2 [of 3] rdb [of 2] by simp
  with dec0 r6 have dec: "desc_op (rd chunk (start + 6)) = opc"
    "desc_flag (rd chunk (start + 6)) = flag" "read_u32 chunk (start + 2) = i"
    by simp_all
  have live1: "conn_live (w_conns ?w1 conn)"
    using live by (simp add: parser_take_def conn_live_def)
  have seven: "7 \<le> read_packetlen chunk start" by (simp add: plen len)
  have fits: "start + read_packetlen chunk start \<le> stop" using plen len ss by simp
  have nx: "start + read_packetlen chunk start = stop" using plen len ss by simp
  have dh: "dispatch P conn opc i flag chunk (start + 7) stop
              = handler P conn i flag chunk (start + 7) stop"
    using opc h by (auto simp: dispatch_def)
  have step: "parser_loop P conn chunk start stop ?w1 =
      (case handler P conn i flag chunk (start + 7) stop ?w1 of
         (Inl e, w') \<Rightarrow> (Inl e, w')
       | (Inr u, w') \<Rightarrow> (Inr (Some stop), parser_advance conn stop w'))"
    using parser_loop_frame [OF live1 seven fits, of P]
    by (simp only: nx dec dh)
       (simp add: parser_loop_stop split: prod.splits sum.splits)
  have one: "sock_ondata P conn chunk start stop w = one_call_at handler P conn i flag chunk start stop w"
  proof (cases "handler P conn i flag chunk (start + 7) stop ?w1")
    case (Pair r w')
    then show ?thesis
      unfolding sock_ondata_fresh [OF fresh] one_call_at_def step
      by (cases r) simp_all
  qed
  have "slice_buf chunk (start + 7) stop = drop 7 (slice_buf chunk start stop)"
    using ss by (simp add: slice_buf_def drop_take add.commute)
  also have "\<dots> = drop 7 b" by (simp only: sl)
  also have "\<dots> = slice_buf b 7 (length b)" by (simp add: slice_buf_def)
  also have "\<dots> = (case data of None \<Rightarrow> [] | Some d \<Rightarrow> d)"
    by (simp add: b slice_packet_bytes)
  finally show ?thesis using one by simp
qed

text \<open>
  C1.  A DataFrame, a SignalFrame or an OpenRequest with a channel id below \<open>2^32\<close>, a
  flag from 0 to 7 and a payload of at most \<open>MAX_PAYLOAD_SIZE\<close> bytes, and a live
  connection whose parser holds no residue.  Handing the bytes of its \<open>toBuffer\<close> to
  the parser is exactly one call of the handler of the frame's kind
  (\<open>processData\<close>, \<open>processSignal\<close>, \<open>processOpen\<close>) with the channel id and
  the flag of the frame and the payload as the bytes from 7 to the end, after which the
  parser holds nothing.  The same holds when the bytes lie between \<open>start\<close> and
  \<open>stop\<close> of any larger chunk, and when they arrive in two chunks, cut at any place:
  the first chunk is only kept, and the second completes the frame.
\<close>

theorem frame_bytes_parse_back:
  assumes "conn_live (w_conns w conn)" and "cn_buffer (w_conns w conn) = None"
    and "0 \<le> i" and "i < 2 ^ 32" and "0 \<le> flag" and "flag \<le> 7"
    and "(case data of None \<Rightarrow> 0 | Some d \<Rightarrow> length d) \<le> MAX_PAYLOAD_SIZE"
    and "f_id f = Some i" and "f_flag f = flag" and "f_data f = data"
    and "rq_id r = i" and "rq_flag r = flag" and "rq_data r = data"
    and "bd = DataFrame_toBuffer f" and "bs = SignalFrame_toBuffer f"
    and "bo = OpenRequest_toBuffer r"
    and "payload = (case data of None \<Rightarrow> [] | Some d \<Rightarrow> d)"
  shows "sock_ondata P conn bd 0 (length bd) w = one_call Connection_processData P conn i flag bd w
       \<and> slice_buf bd 7 (length bd) = payload
       \<and> (\<forall>chunk start stop.
             stop \<le> length chunk \<and> slice_buf chunk start stop = bd \<longrightarrow>
             sock_ondata P conn chunk start stop w
               = one_call_at Connection_processData P conn i flag chunk start stop w
             \<and> slice_buf chunk (start + 7) stop = payload)
       \<and> (\<forall>k < length bd.
             sock_ondata P conn (take k bd) 0 k w = (Inr (), parser_hold conn (take k bd) w)
             \<and> sock_ondata P conn (drop k bd) 0 (length bd - k) (parser_hold conn (take k bd) w)
                 = one_call Connection_processData P conn i flag bd w)
       \<and> sock_ondata P conn bs 0 (length bs) w = one_call Connection_processSignal P conn i flag bs w
       \<and> slice_buf bs 7 (length bs) = payload
       \<and> (\<forall>chunk start stop.
             stop \<le> length chunk \<and> slice_buf chunk start stop = bs \<longrightarrow>
             sock_ondata P conn chunk start stop w
               = one_call_at Connection_processSignal P conn i flag chunk start stop w
             \<and> slice_buf chunk (start + 7) stop = payload)
       \<and> (\<forall>k < length bs.
             sock_ondata P conn (take k bs) 0 k w = (Inr (), parser_hold conn (take k bs) w)
             \<and> sock_ondata P conn (drop k bs) 0 (length bs - k) (parser_hold conn (take k bs) w)
                 = one_call Connection_processSignal P conn i flag bs w)
       \<and> sock_ondata P conn bo 0 (length bo) w = one_call Connection_processOpen P conn i flag bo w
       \<and> slice_buf bo 7 (length bo) = payload
       \<and> (\<forall>chunk start stop.
             stop \<le> length chunk \<and> slice_buf chunk start stop = bo \<longrightarrow>
             sock_ondata P conn chunk start stop w
               = one_call_at Connection_processOpen P conn i flag chunk start stop w
             \<and> slice_buf chunk (start + 7) stop = payload)
       \<and> (\<forall>k < length bo.
             sock_ondata P conn (take k bo) 0 k w = (Inr (), parser_hold conn (take k bo) w)
             \<and> sock_ondata P conn (drop k bo) 0 (length bo - k) (parser_hold conn (take k bo) w)
                 = one_call Connection_processOpen P conn i flag bo w)"
proof -
  have d: "bd = packet_bytes 2 (Some i) flag data"
    and s: "bs = packet_bytes 3 (Some i) flag data"
    and o: "bo = packet_bytes 1 (Some i) flag data"
    using assms
    by (simp_all add: DataFrame_toBuffer_def SignalFrame_toBuffer_def OpenRequest_toBuffer_def)
  have hd: "Connection_processData = (if (2 :: int) = 1 then Connection_processOpen
                       else if (2 :: int) = 2 then Connection_processData
                       else Connection_processSignal)"
    and hs: "Connection_processSignal = (if (3 :: int) = 1 then Connection_processOpen
                       else if (3 :: int) = 2 then Connection_processData
                       else Connection_processSignal)"
    and ho: "Connection_processOpen = (if (1 :: int) = 1 then Connection_processOpen
                       else if (1 :: int) = 2 then Connection_processData
                       else Connection_processSignal)"
    by simp_all
  note whole = sock_ondata_packet_bytes [OF assms(1-4) _ assms(5-7), of _ _ _ P]
  note parts = packet_in_pieces [OF assms(1-4) _ assms(5-7), of _ _ _ _ P]
  note emb = sock_ondata_embedded [OF assms(1-4) _ assms(5-7), of _ _ _ _ _ _ P]
  have d1: "sock_ondata P conn bd 0 (length bd) w = one_call Connection_processData P conn i flag bd w"
    by (rule whole [OF _ d hd]) simp
  have s1: "sock_ondata P conn bs 0 (length bs) w = one_call Connection_processSignal P conn i flag bs w"
    by (rule whole [OF _ s hs]) simp
  have o1: "sock_ondata P conn bo 0 (length bo) w = one_call Connection_processOpen P conn i flag bo w"
    by (rule whole [OF _ o ho]) simp
  have d2: "\<forall>k < length bd.
             sock_ondata P conn (take k bd) 0 k w = (Inr (), parser_hold conn (take k bd) w)
             \<and> sock_ondata P conn (drop k bd) 0 (length bd - k) (parser_hold conn (take k bd) w)
                 = one_call Connection_processData P conn i flag bd w"
    using parts [OF _ d hd] by simp
  have s2: "\<forall>k < length bs.
             sock_ondata P conn (take k bs) 0 k w = (Inr (), parser_hold conn (take k bs) w)
             \<and> sock_ondata P conn (drop k bs) 0 (length bs - k) (parser_hold conn (take k bs) w)
                 = one_call Connection_processSignal P conn i flag bs w"
    using parts [OF _ s hs] by simp
  have o2: "\<forall>k < length bo.
             sock_ondata P conn (take k bo) 0 k w = (Inr (), parser_hold conn (take k bo) w)
             \<and> sock_ondata P conn (drop k bo) 0 (length bo - k) (parser_hold conn (take k bo) w)
                 = one_call Connection_processOpen P conn i flag bo w"
    using parts [OF _ o ho] by simp
  have d3: "\<forall>chunk start stop.
             stop \<le> length chunk \<and> slice_buf chunk start stop = bd \<longrightarrow>
             sock_ondata P conn chunk start stop w
               = one_call_at Connection_processData P conn i flag chunk start stop w
             \<and> slice_buf chunk (start + 7) stop = payload"
    unfolding assms(17) using emb [OF _ d hd] by simp
  have s3: "\<forall>chunk start stop.
             stop \<le> length chunk \<and> slice_buf chunk start stop = bs \<longrightarrow>
             sock_ondata P conn chunk start stop w
               = one_call_at Connection_processSignal P conn i flag chunk start stop w
             \<and> slice_buf chunk (start + 7) stop = payload"
    unfolding assms(17) using emb [OF _ s hs] by simp
  have o3: "\<forall>chunk start stop.
             stop \<le> length chunk \<and> slice_buf chunk start stop = bo \<longrightarrow>
             sock_ondata P conn chunk start stop w
               = one_call_at Connection_processOpen P conn i flag chunk start stop w
             \<and> slice_buf chunk (start + 7) stop = payload"
    unfolding assms(17) using emb [OF _ o ho] by simp
  have sl: "slice_buf bd 7 (length bd) = payload" "slice_buf bs 7 (length bs) = payload"
    "slice_buf bo 7 (length bo) = payload"
    by (simp_all add: slice_packet_bytes d s o assms(17))
  from d1 d2 d3 s1 s2 s3 o1 o2 o3 sl show ?thesis by blast
qed

theorem frame_bytes_parse_back_witness:
  "sock_ondata demo_platform 0 (DataFrame_toBuffer demo_frame) 0
       (length (DataFrame_toBuffer demo_frame)) live_world
     = one_call Connection_processData demo_platform 0 1122867 3
         (DataFrame_toBuffer demo_frame) live_world
   \<and> slice_buf (DataFrame_toBuffer demo_frame) 7 (length (DataFrame_toBuffer demo_frame))
     = [1, 2, 3]
   \<and> sock_ondata demo_platform 0 ([9, 9] @ DataFrame_toBuffer demo_frame @ [7]) 2 12 live_world
     = one_call_at Connection_processData demo_platform 0 1122867 3
         ([9, 9] @ DataFrame_toBuffer demo_frame @ [7]) 2 12 live_world
   \<and> slice_buf ([9, 9] @ DataFrame_toBuffer demo_frame @ [7]) (2 + 7) 12 = [1, 2, 3]
   \<and> sock_ondata demo_platform 0 (take 3 (DataFrame_toBuffer demo_frame)) 0 3 live_world
     = (Inr (), parser_hold 0 (take 3 (DataFrame_toBuffer demo_frame)) live_world)
   \<and> sock_ondata demo_platform 0 (drop 3 (DataFrame_toBuffer demo_frame)) 0
       (length (DataFrame_toBuffer demo_frame) - 3)
       (parser_hold 0 (take 3 (DataFrame_toBuffer demo_frame)) live_world)
     = one_call Connection_processData demo_platform 0 1122867 3
         (DataFrame_toBuffer demo_frame) live_world
   \<and> sock_ondata demo_platform 0 (SignalFrame_toBuffer demo_frame) 0
       (length (SignalFrame_toBuffer demo_frame)) live_world
     = one_call Connection_processSignal demo_platform 0 1122867 3
         (SignalFrame_toBuffer demo_frame) live_world
   \<and> slice_buf (SignalFrame_toBuffer demo_frame) 7 (length (SignalFrame_toBuffer demo_frame))
     = [1, 2, 3]
   \<and> sock_ondata demo_platform 0 (OpenRequest_toBuffer demo_request) 0
       (length (OpenRequest_toBuffer demo_request)) live_world
     = one_call Connection_processOpen demo_platform 0 1122867 3
         (OpenRequest_toBuffer demo_request) live_world
   \<and> slice_buf (OpenRequest_toBuffer demo_request) 7 (length (OpenRequest_toBuffer demo_request))
     = [1, 2, 3]"
proof -
  have n: "length (DataFrame_toBuffer demo_frame) = 10"
    by (simp add: DataFrame_toBuffer_def length_packet_bytes demo_frame_def)
  have l: "(3 :: nat) < length (DataFrame_toBuffer demo_frame)" by (simp add: n)
  have e: "(12 :: nat) \<le> length ([9, 9] @ DataFrame_toBuffer demo_frame @ [7])"
    "slice_buf ([9, 9] @ DataFrame_toBuffer demo_frame @ [7]) 2 12 = DataFrame_toBuffer demo_frame"
    by (simp_all add: n slice_buf_def)
  note t = frame_bytes_parse_back
    [of live_world 0 1122867 3 "Some [1, 2, 3]" demo_frame demo_request
        "DataFrame_toBuffer demo_frame" "SignalFrame_toBuffer demo_frame"
        "OpenRequest_toBuffer demo_request" "[1, 2, 3]" demo_platform]
  have pre: "conn_live (w_conns live_world 0)" "cn_buffer (w_conns live_world 0) = None"
    "(case Some [1, 2, 3 :: byte] of None \<Rightarrow> 0 | Some d \<Rightarrow> length d) \<le> MAX_PAYLOAD_SIZE"
    "f_id demo_frame = Some 1122867" "f_flag demo_frame = 3" "f_data demo_frame = Some [1, 2, 3]"
    "rq_id demo_request = 1122867" "rq_flag demo_request = 3"
    "rq_data demo_request = Some [1, 2, 3]"
    "[1, 2, 3 :: byte] = (case Some [1, 2, 3] of None \<Rightarrow> [] | Some d \<Rightarrow> d)"
    by (simp_all add: live_world_def empty_world_def conn_live_def MAX_PAYLOAD_SIZE_def
          demo_frame_def demo_request_def)
  have rng: "0 \<le> (1122867 :: int)" "(1122867 :: int) < 2 ^ 32" "0 \<le> (3 :: int)"
    "(3 :: int) \<le> 7" by simp_all
  note u = t [OF pre(1,2) rng pre(3-9) refl refl refl pre(10)]
  have u1: "sock_ondata demo_platform 0 ([9, 9] @ DataFrame_toBuffer demo_frame @ [7]) 2 12 live_world
     = one_call_at Connection_processData demo_platform 0 1122867 3
         ([9, 9] @ DataFrame_toBuffer demo_frame @ [7]) 2 12 live_world
     \<and> slice_buf ([9, 9] @ DataFrame_toBuffer demo_frame @ [7]) (2 + 7) 12 = [1, 2, 3]"
    using conjunct1 [OF conjunct2 [OF conjunct2 [OF u]], rule_format, OF conjI [OF e]]
    by simp
  from u l u1 show ?thesis by simp
qed

subsection \<open>Channel.end\<close>

lemmas act_defs = ret_def throw_def seq_def then_do_def try_catch_def modify_def when_do_def
  upd_chan_def upd_req_def upd_conn_def upd_sock_def emit_def nextTick_def block_then_def

text \<open>
  C10.  \<open>Channel.end(message)\<close> checks no size.  On an open channel (registered with
  a connection whose socket takes writes, nothing queued, no request pending) it writes
  one SignalFrame with flag END whose payload is the encoded message, whatever its
  length.  The two length bytes of that frame read back as \<open>7 + payload length\<close>
  modulo \<open>2^16\<close>, so when the payload is longer than 65528 bytes the length field is
  not the length of the frame.
\<close>

theorem end_length_field_wraps:
  assumes "\<not> ch_destroyed (w_chans w chan)" and "\<not> ch_closing (w_chans w chan)"
    and "\<not> id_falsy (ch_id (w_chans w chan))" and "ch_connection (w_chans w chan) = Some cn"
    and "ch_request (w_chans w chan) = None" and "ch_writeQueue (w_chans w chan) = None"
    and "\<not> ch_connecting (w_chans w chan)"
    and "cn_sock (w_conns w cn) = Some sk" and "sk_failing (w_socks w sk) = None"
    and "message \<noteq> []"
    and "payload = new_Buffer P message (Some ''utf8'')"
    and "b = SignalFrame_toBuffer \<lparr>f_kind = SignalFrame, f_id = ch_id (w_chans w chan),
                                   f_flag = FLAG_END, f_data = Some payload\<rparr>"
  shows "(\<exists>w'. Channel_end P chan (Some message) w = (Inr (), w')
               \<and> sk_written (w_socks w' sk) = sk_written (w_socks w sk) @ [b])
       \<and> length b = 7 + length payload
       \<and> read_packetlen b 0 = (7 + length payload) mod 65536
       \<and> (65528 < length payload \<longrightarrow> read_packetlen b 0 \<noteq> length b)"
proof -
  have written: "\<exists>w'. Channel_end P chan (Some message) w = (Inr (), w')
               \<and> sk_written (w_socks w' sk) = sk_written (w_socks w sk) @ [b]"
    using assms
    by (simp add: Channel_end_def Channel_destroy_def Channel_destroy_body_def
          Channel_writeOut_with_def Connection_write_def sock_write_def packet_toBuffer_def
          frame_toBuffer_def act_defs str_truthy_def Let_def)
  have len: "length b = 7 + length payload"
    by (simp add: assms(12) SignalFrame_toBuffer_def length_packet_bytes)
  have field: "read_packetlen b 0 = (7 + length payload) mod 65536"
    by (simp add: assms(12) SignalFrame_toBuffer_def read_packetlen_packet_bytes)
  have "read_packetlen b 0 < 65536" by (simp add: field)
  then have "65528 < length payload \<longrightarrow> read_packetlen b 0 \<noteq> length b"
    by (simp add: len)
  with written len field show ?thesis by blast
qed

theorem end_length_field_wraps_witness:
  "(\<exists>w'. Channel_end demo_platform 0 (Some (replicate 65529 CHR ''a'')) open_world = (Inr (), w')
         \<and> sk_written (w_socks w' 0)
             = [SignalFrame_toBuffer \<lparr>f_kind = SignalFrame, f_id = Some 1, f_flag = FLAG_END,
                  f_data = Some (new_Buffer demo_platform (replicate 65529 CHR ''a'')
                                   (Some ''utf8''))\<rparr>])
   \<and> read_packetlen
        (SignalFrame_toBuffer \<lparr>f_kind = SignalFrame, f_id = Some 1, f_flag = FLAG_END,
            f_data = Some (new_Buffer demo_platform (replicate 65529 CHR ''a'') (Some ''utf8''))\<rparr>)
        0 = 0"
  using end_length_field_wraps
    [of open_world 0 0 0 "replicate 65529 CHR ''a''"
        "new_Buffer demo_platform (replicate 65529 CHR ''a'') (Some ''utf8'')" demo_platform
        "SignalFrame_toBuffer \<lparr>f_kind = SignalFrame, f_id = Some 1, f_flag = FLAG_END,
            f_data = Some (new_Buffer demo_platform (replicate 65529 CHR ''a'') (Some ''utf8''))\<rparr>"]
  by (simp add: open_world_def live_world_def empty_world_def new_channel_def id_falsy_def
        demo_platform_def)

subsection \<open>Mode expressions\<close>

lemma MODE_RE_match_canon:
  "map canon s = map canon t \<Longrightarrow> MODE_RE_match s = MODE_RE_match t"
  by (simp add: MODE_RE_match_def MODE_RE_parses_def)

lemma MODE_RE_match_parts:
  assumes "a \<in> {[], ''r'', ''read''}" "b \<in> {[], ''w'', ''write''}" "p \<in> {[], ''+''}"
    "c \<in> {[], ''e'', ''emit''}"
  shows "MODE_RE_match (a @ b @ p @ c) = Some (a \<noteq> [], b \<noteq> [], c \<noteq> [])"
  using assms
  apply (elim insertE emptyE)
  apply (simp_all add: MODE_RE_match_def MODE_RE_parses_def opt_group_def canon_def)
  done

lemma MODE_RE_match_words:
  "t \<in> mode_words r w e \<Longrightarrow> MODE_RE_match t = Some (r, w, e)"
proof -
  assume "t \<in> mode_words r w e"
  then obtain a b p c where t: "t = a @ b @ p @ c"
    and a: "a \<in> (if r then {''r'', ''read''} else {[]})"
    and b: "b \<in> (if w then {''w'', ''write''} else {[]})"
    and p: "p \<in> {[], ''+''}"
    and c: "c \<in> (if e then {''e'', ''emit''} else {[]})"
    unfolding mode_words_def by blast
  have "a \<in> {[], ''r'', ''read''}" "b \<in> {[], ''w'', ''write''}" "c \<in> {[], ''e'', ''emit''}"
    using a b c by (auto split: if_splits)
  from MODE_RE_match_parts [OF this(1,2) p this(3)]
  have "MODE_RE_match t = Some (a \<noteq> [], b \<noteq> [], c \<noteq> [])" by (simp add: t)
  moreover have "(a \<noteq> []) = r" "(b \<noteq> []) = w" "(c \<noteq> []) = e"
    using a b c by (auto split: if_splits)
  ultimately show ?thesis by simp
qed

lemma opt_group_mem:
  "(g, rest) \<in> set (opt_group alts s) \<Longrightarrow>
     \<exists>a. a \<in> (if g then set alts else {[]}) \<and> s = map canon a @ rest"
  by (auto simp: opt_group_def prefix_def split: if_splits)

lemma MODE_RE_parses_mem:
  assumes "(g1, g2, g3) \<in> set (MODE_RE_parses s)"
  shows "\<exists>a b p c. map canon s = map canon (a @ b @ p @ c)
           \<and> a \<in> (if g1 then {''r'', ''read''} else {[]})
           \<and> b \<in> (if g2 then {''w'', ''write''} else {[]})
           \<and> p \<in> {[], ''+''}
           \<and> c \<in> (if g3 then {''e'', ''emit''} else {[]})"
proof -
  from assms obtain s1 s2 p s3 s4 where
    m1: "(g1, s1) \<in> set (opt_group [''r'', ''read''] (map canon s))"
    and m2: "(g2, s2) \<in> set (opt_group [''w'', ''write''] s1)"
    and m3: "(p, s3) \<in> set (opt_group [''+''] s2)"
    and m4: "(g3, s4) \<in> set (opt_group [''e'', ''emit''] s3)"
    and e: "s4 = []"
    unfolding MODE_RE_parses_def by (auto split: if_splits)
  from opt_group_mem [OF m1] obtain a where
    a: "a \<in> (if g1 then set [''r'', ''read''] else {[]})" "map canon s = map canon a @ s1"
    by blast
  from opt_group_mem [OF m2] obtain b where
    b: "b \<in> (if g2 then set [''w'', ''write''] else {[]})" "s1 = map canon b @ s2"
    by blast
  from opt_group_mem [OF m3] obtain q where
    q: "q \<in> (if p then set [''+''] else {[]})" "s2 = map canon q @ s3"
    by blast
  from opt_group_mem [OF m4] obtain c where
    c: "c \<in> (if g3 then set [''e'', ''emit''] else {[]})" "s3 = map canon c @ s4"
    by blast
  have eq: "map canon s = map canon (a @ b @ q @ c)"
    by (simp add: a(2) b(2) q(2) c(2) e)
  have "a \<in> (if g1 then {''r'', ''read''} else {[]})" using a(1) by (cases g1) simp_all
  moreover have "b \<in> (if g2 then {''w'', ''write''} else {[]})" using b(1) by (cases g2) simp_all
  moreover have "q \<in> {[], ''+''}" using q(1) by (cases p) simp_all
  moreover have "c \<in> (if g3 then {''e'', ''emit''} else {[]})" using c(1) by (cases g3) simp_all
  ultimately show ?thesis using eq by blast
qed

text \<open>The regular expression matches exactly the strings of the grammar.\<close>

lemma MODE_RE_match_sound:
  "MODE_RE_match s = Some (r, w, e) \<Longrightarrow> spec_mode_matches r w e s"
proof -
  assume "MODE_RE_match s = Some (r, w, e)"
  then have "(r, w, e) \<in> set (MODE_RE_parses s)"
    by (auto simp: MODE_RE_match_def split: list.splits)
  from MODE_RE_parses_mem [OF this] show ?thesis
    unfolding spec_mode_matches_def mode_words_def by blast
qed

lemma MODE_RE_match_complete:
  "spec_mode_matches r w e s \<Longrightarrow> MODE_RE_match s = Some (r, w, e)"
  unfolding spec_mode_matches_def
  using MODE_RE_match_canon MODE_RE_match_words by metis

lemma spec_mode_matches_empty: "spec_mode_matches r w e [] \<longleftrightarrow> \<not> r \<and> \<not> w \<and> \<not> e"
  unfolding spec_mode_matches_def mode_words_def by (auto split: if_splits)

lemma mode_bits:
  "m = (if r then READ else 0) OR (if w then WRITE else 0) OR (if e then EMIT else 0) \<Longrightarrow>
     (m AND READ = READ) = r \<and> (m AND WRITE = WRITE) = w \<and> (m AND EMIT = EMIT) = e"
  by (cases r; cases w; cases e) (simp_all add: READ_def WRITE_def EMIT_def)

lemma getBinMode_match:
  assumes "spec_mode_matches r w e s"
  shows "getBinMode (JStr s)
           = Some ((if r then READ else 0) OR (if w then WRITE else 0) OR (if e then EMIT else 0))"
proof (cases "s = []")
  case True
  with assms show ?thesis by (simp add: spec_mode_matches_empty getBinMode_def)
next
  case False
  then show ?thesis
    using MODE_RE_match_complete [OF assms]
    by (cases r; cases w; cases e) (simp_all add: getBinMode_def READ_def WRITE_def EMIT_def)
qed

lemma getBinMode_no_match:
  assumes "\<forall>r w e. \<not> spec_mode_matches r w e s"
  shows "getBinMode (JStr s) = None"
proof -
  have "s \<noteq> []" using assms spec_mode_matches_empty [of False False False] by auto
  moreover have "MODE_RE_match s = None"
  proof (cases "MODE_RE_match s")
    case (Some m)
    then show ?thesis using assms MODE_RE_match_sound [of s "fst m" "fst (snd m)" "snd (snd m)"]
      by simp
  qed simp
  ultimately show ?thesis by (simp add: getBinMode_def)
qed

lemma connect_invalid_mode:
  assumes "getBinMode mode = None" "\<not> ch_connecting (w_chans w chan)"
    "u_protocol (connect_url P u) = Some ''http:'' \<or> u_protocol (connect_url P u) = Some ''https:''"
    "connect_id P (connect_url P u) = Inr ident"
  shows "Channel_connect P chan (JStr u) mode w = (Inl (Error ''Invalid mode''), w)"
  using assms
  by (auto simp: Channel_connect_def Let_def lift_def act_defs)

text \<open>
  C9.  \<open>getBinMode\<close> on a string of the grammar \<open>(r|read)?(w|write)?\+?(e|emit)?\<close>,
  matched without regard to case, is the bit set with READ exactly when \<open>r|read\<close> is
  there, WRITE exactly when \<open>w|write\<close> is and EMIT exactly when \<open>e|emit\<close> is; on
  the empty string it is 0; on a string outside the grammar it is \<open>null\<close>, and then
  \<open>connect\<close>, once past its checks of the URL, throws "Invalid mode" and leaves the
  store as it was.
\<close>

theorem getBinMode_follows_grammar:
  "(spec_mode_matches r w e s \<longrightarrow>
      (\<exists>m. getBinMode (JStr s) = Some m
          \<and> (m AND READ = READ) = r \<and> (m AND WRITE = WRITE) = w \<and> (m AND EMIT = EMIT) = e
          \<and> m = (if r then 1 else 0) + (if w then 2 else 0) + (if e then 4 else 0)))
   \<and> getBinMode (JStr []) = Some 0
   \<and> ((\<forall>r w e. \<not> spec_mode_matches r w e s) \<longrightarrow>
        getBinMode (JStr s) = None
        \<and> (\<not> ch_connecting (w_chans world chan)
           \<and> (u_protocol (connect_url P u) = Some ''http:''
                \<or> u_protocol (connect_url P u) = Some ''https:'')
           \<and> connect_id P (connect_url P u) = Inr ident
           \<longrightarrow> Channel_connect P chan (JStr u) (JStr s) world = (Inl (Error ''Invalid mode''), world)))"
proof -
  have one: "spec_mode_matches r w e s \<longrightarrow>
      (\<exists>m. getBinMode (JStr s) = Some m
          \<and> (m AND READ = READ) = r \<and> (m AND WRITE = WRITE) = w \<and> (m AND EMIT = EMIT) = e
          \<and> m = (if r then 1 else 0) + (if w then 2 else 0) + (if e then 4 else 0))"
  proof
    assume a: "spec_mode_matches r w e s"
    let ?m = "(if r then READ else 0) OR (if w then WRITE else 0) OR (if e then EMIT else 0)"
    have "?m = (if r then 1 else 0) + (if w then 2 else 0) + (if e then 4 else 0)"
      by (cases r; cases w; cases e) (simp_all add: READ_def WRITE_def EMIT_def)
    with getBinMode_match [OF a] mode_bits [of ?m r w e]
    show "\<exists>m. getBinMode (JStr s) = Some m
          \<and> (m AND READ = READ) = r \<and> (m AND WRITE = WRITE) = w \<and> (m AND EMIT = EMIT) = e
          \<and> m = (if r then 1 else 0) + (if w then 2 else 0) + (if e then 4 else 0)"
      by simp
  qed
  have two: "getBinMode (JStr []) = Some 0" by (simp add: getBinMode_def)
  have three: "(\<forall>r w e. \<not> spec_mode_matches r w e s) \<longrightarrow>
        getBinMode (JStr s) = None
        \<and> (\<not> ch_connecting (w_chans world chan)
           \<and> (u_protocol (connect_url P u) = Some ''http:''
                \<or> u_protocol (connect_url P u) = Some ''https:'')
           \<and> connect_id P (connect_url P u) = Inr ident
           \<longrightarrow> Channel_connect P chan (JStr u) (JStr s) world = (Inl (Error ''Invalid mode''), world))"
    using getBinMode_no_match [of s] connect_invalid_mode [of "JStr s" world chan P u ident]
    by blast
  from one two three show ?thesis by blast
qed

lemma rW_matches: "spec_mode_matches True True False ''rW''"
proof -
  have "''r'' @ ''w'' @ [] @ [] \<in> mode_words True True False"
    unfolding mode_words_def
    by (intro CollectI exI [of _ "''r''"] exI [of _ "''w''"] exI [of _ "[]"]) simp
  then have "''rw'' \<in> mode_words True True False" by simp
  moreover have "map canon ''rW'' = map canon ''rw''" by (simp add: canon_def)
  ultimately show ?thesis unfolding spec_mode_matches_def by blast
qed

lemma x_matches_not: "\<not> spec_mode_matches r w e ''x''"
  using MODE_RE_match_complete [of r w e "''x''"]
  by (auto simp: MODE_RE_match_def MODE_RE_parses_def opt_group_def canon_def)

lemmas world_defs = empty_world_def live_world_def open_world_def opening_world_def
  queue_world_def unconnected_world_def busy_world_def new_channel_def demo_platform_def
  demo_url_def heard_world_def queued_world_def

theorem getBinMode_follows_grammar_witness:
  "(\<exists>m. getBinMode (JStr ''rW'') = Some m \<and> m AND READ = READ \<and> m AND WRITE = WRITE
        \<and> m AND EMIT \<noteq> EMIT \<and> m = 3)
   \<and> getBinMode (JStr []) = Some 0
   \<and> getBinMode (JStr ''x'') = None
   \<and> Channel_connect demo_platform 0 (JStr ''localhost:7010/x112233'') (JStr ''x'')
        unconnected_world
      = (Inl (Error ''Invalid mode''), unconnected_world)"
  using getBinMode_follows_grammar
      [of True True False "''rW''" unconnected_world 0 demo_platform "''localhost:7010/x112233''"
          1122867]
    getBinMode_follows_grammar
      [of True True False "''x''" unconnected_world 0 demo_platform "''localhost:7010/x112233''"
          1122867]
    rW_matches x_matches_not
  by (simp add: world_defs connect_url_def connect_id_def)

subsection \<open>The token of connect\<close>

lemma connect_query_throws:
  assumes "\<not> ch_connecting (w_chans w chan)"
    "u_protocol (connect_url P u) = Some ''http:'' \<or> u_protocol (connect_url P u) = Some ''https:''"
    "connect_id P (connect_url P u) = Inr ident"
    "getBinMode mode = Some m"
    "str_truthy (u_query (connect_url P u))"
  shows "Channel_connect P chan (JStr u) mode w
           = (Inl (TypeError ''Cannot read property query of undefined''), w)"
  using assms
  by (auto simp: Channel_connect_def Let_def lift_def get_query_def act_defs)

text \<open>
  C2.  The claim fails on the code.  \<open>connect\<close> on
  \<open>localhost:7010/x112233?secret\<close> in mode \<open>rw\<close>, on a channel that is not
  connecting: protocol, channel id and mode are valid, the query is \<open>secret\<close>, and
  the call throws a TypeError at \<open>uri.query\<close> before any token is made or anything
  is opened; the store is as before.
\<close>

lemma getBinMode_rw: "getBinMode (JStr ''rw'') = Some 3"
  by (simp add: getBinMode_def MODE_RE_match_def MODE_RE_parses_def opt_group_def canon_def
        READ_def WRITE_def EMIT_def)

theorem connect_with_query_throws:
  "u_query (connect_url demo_platform ''localhost:7010/x112233?secret'') = Some ''secret''
   \<and> Channel_connect demo_platform 0 (JStr ''localhost:7010/x112233?secret'') (JStr ''rw'')
        unconnected_world
      = (Inl (TypeError ''Cannot read property query of undefined''), unconnected_world)"
  using connect_query_throws
      [of unconnected_world 0 demo_platform "''localhost:7010/x112233?secret''" 1122867
          "JStr ''rw''" 3]
    getBinMode_rw
  by (simp add: world_defs connect_url_def connect_id_def str_truthy_def)

subsection \<open>An OPEN frame for an id with no request\<close>

lemma processOpen_known:
  "obj_get (cn_requests (w_conns w cn)) ident = Some request \<Longrightarrow>
     Connection_processOpen P cn ident flag data start end w
       = OpenRequest_processResponse P request flag data start end w"
  by (simp add: Connection_processOpen_def)

lemma processOpen_unknown:
  "obj_get (cn_requests (w_conns w cn)) ident = None \<Longrightarrow>
     Connection_processOpen P cn ident flag data start end w
       = (Inl (ReferenceError ''sock is not defined''), w)"
  by (simp add: Connection_processOpen_def unbound_def act_defs)

text \<open>
  C3.  The claim fails on the code.  Channel 1 is open on a live connection that has no
  request pending, and the server sends an OPEN frame for id 9 (bytes
  \<open>00 07 00 00 00 09 08\<close>).  \<open>processOpen\<close> throws a ReferenceError out of the
  parser: the connection stays live and keeps its channel, no event is emitted, and the
  parser has not moved past the frame.
\<close>

theorem open_for_unknown_id_throws:
  "obj_get (cn_requests (w_conns open_world 0)) 9 = None
   \<and> sock_ondata demo_platform 0 [0, 7, 0, 0, 0, 9, 8] 0 7 open_world
      = (Inl (ReferenceError ''sock is not defined''),
         parser_take 0 [0, 7, 0, 0, 0, 9, 8] 0 7 open_world)
   \<and> conn_live (w_conns (parser_take 0 [0, 7, 0, 0, 0, 9, 8] 0 7 open_world) 0)
   \<and> cn_channels (w_conns (parser_take 0 [0, 7, 0, 0, 0, 9, 8] 0 7 open_world) 0) = [(1, 0)]
   \<and> w_log (parser_take 0 [0, 7, 0, 0, 0, 9, 8] 0 7 open_world) = []"
  apply (simp add: sock_ondata_def Let_def)
  apply (subst parser_loop.simps)
  apply (simp add: world_defs conn_live_def read_packetlen_def rd_def Let_def desc_op_def
           desc_flag_def read_u32_def dispatch_def Connection_processOpen_def obj_get_def
           unbound_def act_defs parser_take_def)
  done

subsection \<open>Closing a channel that is still opening\<close>

lemma destroy_opening:
  "Channel_destroy 0 None opening_world =
     (Inr (), opening_world\<lparr>w_chans := (w_chans opening_world)
        (0 := (w_chans opening_world 0)
           \<lparr>ch_readable := False, ch_writable := False, ch_emitable := False,
            ch_closing := True,
            ch_endsig := Some \<lparr>f_kind = SignalFrame, f_id = Some 1, f_flag = FLAG_END,
                               f_data = None\<rparr>\<rparr>)\<rparr>)"
  by (simp add: Channel_destroy_def Channel_destroy_body_def OpenRequest_cancel_def world_defs
        id_falsy_def act_defs Let_def)

text \<open>
  C4.  The claim fails on the code.  A channel waits for the answer to its OpenRequest
  for id 1, which is sent.  \<open>destroy()\<close> stores the END signal and writes nothing.
  Then the server allows the open (bytes \<open>00 07 00 00 00 01 08\<close>): \<open>_open\<close>
  throws a ReferenceError where it reads \<open>self._endsig\<close>; nothing has been written
  to the socket, the END signal is still stored, and no event is emitted.
\<close>

theorem deferred_end_is_never_sent:
  "(case Channel_destroy 0 None opening_world of
      (r1, w1) \<Rightarrow>
        r1 = Inr () \<and> ch_closing (w_chans w1 0)
        \<and> ch_endsig (w_chans w1 0)
            = Some \<lparr>f_kind = SignalFrame, f_id = Some 1, f_flag = FLAG_END, f_data = None\<rparr>
        \<and> sk_written (w_socks w1 0) = []
        \<and> (case sock_ondata demo_platform 0 [0, 7, 0, 0, 0, 1, 8] 0 7 w1 of
              (r2, w2) \<Rightarrow>
                r2 = Inl (ReferenceError ''self is not defined'')
                \<and> sk_written (w_socks w2 0) = [] \<and> w_log w2 = []
                \<and> ch_endsig (w_chans w2 0)
                    = Some \<lparr>f_kind = SignalFrame, f_id = Some 1, f_flag = FLAG_END,
                            f_data = None\<rparr>))"
  apply (simp add: destroy_opening)
  apply (simp add: sock_ondata_def Let_def)
  apply (subst parser_loop.simps)
  apply (simp add: world_defs conn_live_def read_packetlen_def rd_def Let_def desc_op_def
           desc_flag_def read_u32_def dispatch_def Connection_processOpen_def
           OpenRequest_processResponse_def response_queue_step_def onresponse_def
           Channel_open_def obj_get_def
           obj_delete_def unbound_def act_defs FLAG_ALLOW_def FLAG_END_def)
  done

subsection \<open>Cancelling an OpenRequest\<close>

lemma cancel_sent:
  "rq_sent (w_reqs w r) \<Longrightarrow> OpenRequest_cancel r w = (Inr False, w)"
  by (simp add: OpenRequest_cancel_def Let_def)

text \<open>
  C7.  The claim fails on the code for a request that is not the head.  Request 0 for
  id 1 is sent, request 1 for id 1 is queued behind it and not sent.  \<open>cancel\<close> on
  request 1 returns \<open>true\<close> and destroys it, and request 0 still has it as
  \<open>next\<close>: walking the queue from \<open>requests[1]\<close> still ends at the cancelled
  request.
\<close>

theorem cancel_leaves_tail_linked:
  "obj_get (cn_requests (w_conns queue_world 0)) 1 = Some 0
   \<and> rq_next (w_reqs queue_world 0) = Some 1
   \<and> \<not> rq_sent (w_reqs queue_world 1)
   \<and> (case OpenRequest_cancel 1 queue_world of
         (r, w') \<Rightarrow>
           r = Inr True \<and> rq_destroyed (w_reqs w' 1)
           \<and> obj_get (cn_requests (w_conns w' 0)) 1 = Some 0
           \<and> rq_next (w_reqs w' 0) = Some 1
           \<and> chain_last 2 (w_reqs w') 0 = Some 1)"
  by (simp add: OpenRequest_cancel_def OpenRequest_destroy_def Connection_setDisposed_def
        world_defs obj_get_def conn_live_def act_defs Let_def numeral_2_eq_2)

subsection \<open>Channel.write and the size of the payload\<close>

text \<open>
  C6.  On a writable channel, when the payload that \<open>write\<close> makes of its data is
  longer than \<open>MAX_PAYLOAD_SIZE\<close>, \<open>write\<close> throws one of its validation errors
  and the whole store is as it was before the call: nothing is written to a socket,
  nothing is queued, and no field of the channel has changed.  When the priority and
  the data pass their own checks, the error is the one about the length.
\<close>

theorem write_rejects_large_payload:
  assumes "ch_writable (w_chans w chan)"
    and "make_payload P data (write_encoding arg1) = Inr payload"
    and "MAX_PAYLOAD_SIZE < length payload"
  shows "\<exists>msg. Channel_write P chan data arg1 arg2 w = (Inl (Error msg), w)
           \<and> (msg = ''Bad priority, expected Number between 1-4''
                \<or> msg = ''Expected `data`''
                \<or> msg = ''Cannot send data, max length reach.'')
           \<and> ((\<exists>fl. write_flag P arg2 = Some fl \<and> 0 \<le> fl \<and> fl \<le> 3) \<and> truthy data
                \<longrightarrow> msg = ''Cannot send data, max length reach.'')"
  using assms
  by (auto simp: Channel_write_def Let_def lift_def act_defs split: option.splits)

theorem write_rejects_large_payload_witness:
  "MAX_PAYLOAD_SIZE < length (replicate 10241 (0 :: byte))
   \<and> Channel_write demo_platform 0 (JBuffer (replicate 10241 0)) JUndefined JUndefined open_world
      = (Inl (Error ''Cannot send data, max length reach.''), open_world)"
  using write_rejects_large_payload
      [of open_world 0 demo_platform "JBuffer (replicate 10241 0)" JUndefined
          "replicate 10241 0" JUndefined]
  by (auto simp: world_defs make_payload_def write_encoding_def write_flag_def to_number_def
        MAX_PAYLOAD_SIZE_def)

subsection \<open>Properties that calls keep\<close>

lemma keeps_ret: "keeps I (ret x)" by (simp add: keeps_def ret_def)
lemma keeps_seq: "keeps I m \<Longrightarrow> (\<And>x. keeps I (f x)) \<Longrightarrow> keeps I (seq m f)"
  unfolding keeps_def seq_def
  by (auto split: prod.splits sum.splits)
lemma keeps_then_do: "keeps I m \<Longrightarrow> keeps I n \<Longrightarrow> keeps I (then_do m n)"
  by (simp add: then_do_def keeps_seq)
lemma keeps_block: "(\<And>m. m \<in> set ms \<Longrightarrow> keeps I m) \<Longrightarrow> keeps I (block ms)"
  by (induction ms) (simp_all add: keeps_ret keeps_then_do)
lemma keeps_modify: "(\<And>w. I w \<Longrightarrow> I (f w)) \<Longrightarrow> keeps I (modify f)"
  by (simp add: keeps_def modify_def)

lemma dead_setDisposed: "keeps (dead cn) (Connection_setDisposed c st)"
  by (auto simp: keeps_def dead_def Connection_setDisposed_def act_defs Let_def split: option.splits)





lemma keeps_blockD: "I w \<Longrightarrow> (\<And>m. m \<in> set ms \<Longrightarrow> keeps I m) \<Longrightarrow> I (snd (block ms w))"
  using keeps_block [of ms I] by (simp add: keeps_def)




lemma dead_upd_chan: "keeps (dead cn) (upd_chan r f)"
  by (simp add: keeps_def dead_def act_defs)





subsection \<open>The id of a channel once it is open\<close>







subsection \<open>The answer REDIRECT\<close>











subsection \<open>Frames that no handler sees\<close>






subsection \<open>Connection.destroy with an error\<close>





















subsection \<open>A turn of the parser\<close>










text \<open>
  Two DataFrames for channel 1 in one chunk, of 8 and 9 bytes: the second is read where
  the first ends, and the channel hears both payloads in order.
\<close>

lemma two_frames_in_one_chunk:
  "w_log (snd (sock_ondata demo_platform 0
                 [0, 8, 0, 0, 0, 1, 16, 65, 0, 9, 0, 0, 0, 1, 16, 66, 67] 0 17 open_world))
     = [(0, EvData (JBuffer [65]) 1), (0, EvData (JBuffer [66, 67]) 1)]"
proof -
  let ?b = "[0, 8, 0, 0, 0, 1, 16, 65, 0, 9, 0, 0, 0, 1, 16, 66, 67] :: bytes"
  let ?w1 = "parser_take 0 ?b 0 17 open_world"
  have fresh: "cn_buffer (w_conns open_world 0) = None" by (simp add: world_defs)
  have live1: "conn_live (w_conns ?w1 0)" by (simp add: parser_take_def conn_live_def world_defs)
  have n1: "read_packetlen ?b 0 = 8" by (simp add: read_packetlen_def rd_def)
  have n2: "read_packetlen ?b 8 = 9" by (simp add: read_packetlen_def rd_def)
  have h1: "Connection_processData demo_platform 0 1 0 ?b 7 8 ?w1
              = (Inr (), ?w1\<lparr>w_log := [(0, EvData (JBuffer [65]) 1)]\<rparr>)"
    by (simp add: Connection_processData_def Channel_ondata_def ALL_CHANNELS_def world_defs
          obj_get_def slice_buf_def str_truthy_def to_int32_def act_defs parser_take_def Let_def)
  let ?w2 = "parser_advance 0 8 (?w1\<lparr>w_log := [(0, EvData (JBuffer [65]) 1)]\<rparr>)"
  have live2: "conn_live (w_conns ?w2 0)"
    by (simp add: parser_advance_def parser_take_def conn_live_def world_defs)
  have h2: "Connection_processData demo_platform 0 1 0 ?b 15 17 ?w2
              = (Inr (), ?w2\<lparr>w_log := [(0, EvData (JBuffer [65]) 1), (0, EvData (JBuffer [66, 67]) 1)]\<rparr>)"
    by (simp add: Connection_processData_def Channel_ondata_def ALL_CHANNELS_def world_defs
          obj_get_def slice_buf_def str_truthy_def to_int32_def act_defs parser_take_def
          parser_advance_def Let_def)
  have t1: "parser_loop demo_platform 0 ?b 0 17 ?w1 = parser_loop demo_platform 0 ?b 8 17 ?w2"
    using parser_loop_frame [OF live1, of ?b 0 17 demo_platform]
    by (simp add: n1 dispatch_def desc_op_def desc_flag_def read_u32_def rd_def h1)
  have t2: "parser_loop demo_platform 0 ?b 8 17 ?w2
              = parser_loop demo_platform 0 ?b 17 17
                  (parser_advance 0 17 (?w2\<lparr>w_log := [(0, EvData (JBuffer [65]) 1),
                                                        (0, EvData (JBuffer [66, 67]) 1)]\<rparr>))"
    using parser_loop_frame [OF live2, of ?b 8 17 demo_platform]
    by (simp add: n2 dispatch_def desc_op_def desc_flag_def read_u32_def rd_def h2)
  show ?thesis
    unfolding sock_ondata_fresh [OF fresh] t1 t2
    by (simp add: parser_loop_stop parser_advance_def parser_release_def)
qed

text \<open>
  The same frame of length 5 on the connection whose one channel listens for
  \<open>data\<close> and \<open>signal\<close> only: \<open>emit("error", err)\<close> throws the error, which
  leaves \<open>finalizeDestroyChannel\<close>, \<open>destroy\<close> and \<open>sock.ondata\<close>.  The
  connection has lost its id and the channel is marked destroyed, but no event was
  emitted and the socket is still there.
\<close>

lemma unheard_error_cuts_destroy_short:
  "fst (sock_ondata demo_platform 0 [0, 5, 0] 0 3 open_world) = Inl (Error ''bad packet size'')
   \<and> \<not> conn_live (w_conns (snd (sock_ondata demo_platform 0 [0, 5, 0] 0 3 open_world)) 0)
   \<and> ch_destroyed (w_chans (snd (sock_ondata demo_platform 0 [0, 5, 0] 0 3 open_world)) 0)
   \<and> w_log (snd (sock_ondata demo_platform 0 [0, 5, 0] 0 3 open_world)) = []
   \<and> cn_sock (w_conns (snd (sock_ondata demo_platform 0 [0, 5, 0] 0 3 open_world)) 0) = Some 0
   \<and> \<not> sk_destroyed (w_socks (snd (sock_ondata demo_platform 0 [0, 5, 0] 0 3 open_world)) 0)"
proof -
  let ?w1 = "parser_take 0 [0, 5, 0] 0 3 open_world"
  have fresh: "cn_buffer (w_conns open_world 0) = None" by (simp add: world_defs)
  have live: "conn_live (w_conns ?w1 0)" by (simp add: parser_take_def conn_live_def world_defs)
  have n: "read_packetlen [0, 5, 0] 0 < 7" by (simp add: read_packetlen_def rd_def)
  have t: "parser_loop demo_platform 0 [0, 5, 0] 0 3 ?w1
             = then_do (Connection_destroy 0 (Some (Error ''bad packet size'')) None) (ret None) ?w1"
    by (rule parser_loop_bad [OF _ live _ n]) simp_all
  have d: "Connection_destroy 0 (Some (Error ''bad packet size'')) None ?w1
             = (Inl (Error ''bad packet size''),
                ?w1\<lparr>w_conns := (w_conns ?w1)(0 := (w_conns ?w1 0)
                        \<lparr>cn_id := None, cn_channels := [], cn_chanRefCount := 0\<rparr>),
                     w_chans := (w_chans ?w1)(0 := finalized (w_chans ?w1 0))\<rparr>)"
    by (simp add: Connection_destroy_def finalizeDestroyChannel_def Connection_setDisposed_def
          finalized_def conn_live_def id_falsy_def num_of_def obj_keys_def obj_get_def
          obj_delete_def parser_take_def world_defs act_defs Let_def)
  show ?thesis
    unfolding sock_ondata_fresh [OF fresh] t then_do_def seq_def d
    by (simp add: finalized_def parser_take_def world_defs conn_live_def)
qed

subsection \<open>The id that REDIRECT gives\<close>


















subsection \<open>The destroy that destroy reaches\<close>

text \<open>
  \<open>_writeOut\<close> on a channel that is closing does the same whatever \<open>destroy\<close> it
  is given below the first, and \<open>destroy\<close> only calls \<open>_writeOut\<close> with
  \<open>_closing\<close> set: any further unfolding of the body of \<open>destroy\<close> changes
  nothing.
\<close>

lemma Channel_writeOut_with_closing:
  "ch_closing (w_chans w chan) \<Longrightarrow>
     Channel_writeOut_with (Channel_destroy_body D) chan p w
       = Channel_writeOut_with (Channel_destroy_body D') chan p w"
  by (simp add: Channel_writeOut_with_def Channel_destroy_body_def Let_def then_do_def seq_def
        split: option.splits)

lemma cancel_cases:
  "OpenRequest_cancel r w = (Inr False, w) \<or> (\<exists>w'. OpenRequest_cancel r w = (Inr True, w'))
   \<or> (\<exists>e w'. OpenRequest_cancel r w = (Inl e, w'))"
proof (cases "rq_sent (w_reqs w r)")
  case True then show ?thesis by (simp add: OpenRequest_cancel_def Let_def)
next
  case False
  let ?b = "block
            [ if obj_get (cn_requests (w_conns w (rq_conn (w_reqs w r)))) (rq_id (w_reqs w r)) = Some r then
                (case rq_next (w_reqs w r) of
                   Some nx \<Rightarrow> upd_conn (rq_conn (w_reqs w r)) (\<lambda>c. c\<lparr>cn_requests := obj_set (cn_requests c) (rq_id (w_reqs w r)) nx\<rparr>)
                 | None \<Rightarrow> upd_conn (rq_conn (w_reqs w r)) (\<lambda>c. c\<lparr>cn_requests := obj_delete (cn_requests c) (rq_id (w_reqs w r))\<rparr>))
              else if rq_prev (w_reqs w r) \<noteq> None then upd_req r (\<lambda>q. q\<lparr>rq_prev := rq_next q\<rparr>)
              else ret (),
              OpenRequest_destroy r None None ]"
  have e: "OpenRequest_cancel r w = then_do ?b (ret True) w"
    using False by (simp add: OpenRequest_cancel_def Let_def)
  obtain x w' where p: "?b w = (x, w')" by (cases "?b w")
  show ?thesis unfolding e using p by (cases x) (simp_all add: then_do_def seq_def ret_def)
qed

lemma Channel_destroy_body_cong:
  assumes "\<And>w p. ch_closing (w_chans w chan) \<Longrightarrow>
             Channel_writeOut_with D1 chan p w = Channel_writeOut_with D2 chan p w"
  shows "Channel_destroy_body D1 chan err w = Channel_destroy_body D2 chan err w"
proof (cases "ch_destroyed (w_chans w chan) \<or> ch_closing (w_chans w chan) \<or> id_falsy (ch_id (w_chans w chan))")
  case True
  then show ?thesis by (simp add: Channel_destroy_body_def Let_def)
next
  case False
  obtain x w1 where a: "when_do (ch_connection (w_chans w chan) = None) (finalizeDestroyChannel chan None None) w = (x, w1)"
    by (cases "when_do (ch_connection (w_chans w chan) = None) (finalizeDestroyChannel chan None None) w")
  show ?thesis
  proof (cases x)
    case (Inl e)
    then show ?thesis using False a
      by (simp add: Channel_destroy_body_def Let_def then_do_def seq_def)
  next
    case (Inr u)
    let ?w2 = "w1\<lparr>w_chans := (w_chans w1)(chan := (w_chans w1 chan)\<lparr>ch_readable := False, ch_writable := False,
                                  ch_emitable := False, ch_closing := True\<rparr>)\<rparr>"
    have c2: "ch_closing (w_chans ?w2 chan)" by simp
    note k = assms [OF c2]
    show ?thesis
    proof (cases "ch_request (w_chans w1 chan)")
      case None
      then show ?thesis using False a Inr k
        by (simp add: Channel_destroy_body_def Let_def act_defs)
    next
      case (Some r)
      show ?thesis
      proof (cases "ch_endsig (w_chans w1 chan) = None")
        case False
        then show ?thesis using \<open>\<not> (ch_destroyed (w_chans w chan) \<or> ch_closing (w_chans w chan) \<or> id_falsy (ch_id (w_chans w chan)))\<close> a Inr k Some
          by (auto simp add: Channel_destroy_body_def Let_def act_defs)
      next
        case True
        from cancel_cases [of r ?w2] show ?thesis
          using True \<open>\<not> (ch_destroyed (w_chans w chan) \<or> ch_closing (w_chans w chan) \<or> id_falsy (ch_id (w_chans w chan)))\<close> a Inr k Some
          by (auto simp add: Channel_destroy_body_def Let_def act_defs)
      qed
    qed
  qed
qed

lemma Channel_destroy_unfold:
  "Channel_destroy_body (Channel_destroy_body D) chan err w = Channel_destroy chan err w"
  unfolding Channel_destroy_def
  by (rule Channel_destroy_body_cong) (rule Channel_writeOut_with_closing)

end
